theory Spec2Isabelle
  imports Main "HOL-Library.Char_ord" "HOL-Library.List_Lexorder" "HOL-Library.Sublist"
    "HOL-Library.Multiset"
begin

section \<open>Go strings\<close>

text \<open>
  A Go string is a sequence of bytes, compared byte by byte; \<^typ>\<open>string\<close> with the
  order of \<open>Char_ord\<close> and \<open>List_Lexorder\<close> is the same order (a proper prefix is smaller).
\<close>

text \<open>\<open>strings.Split(s, sep)\<close> for a separator of one byte: one more part than there are
  separators in \<open>s\<close>, never an empty slice.\<close>

fun strings_Split :: "string \<Rightarrow> char \<Rightarrow> string list" where
  "strings_Split [] sep = [] # []"
| "strings_Split (c # cs) sep =
     (if c = sep then [] # strings_Split cs sep
      else (case strings_Split cs sep of
              [] \<Rightarrow> [c] # []
            | p # ps \<Rightarrow> (c # p) # ps))"

text \<open>\<open>strings.TrimPrefix(s, prefix)\<close>: \<open>s\<close> without the leading prefix, or \<open>s\<close> itself.\<close>

definition strings_TrimPrefix :: "string \<Rightarrow> string \<Rightarrow> string" where
  "strings_TrimPrefix s pre = (if prefix pre s then drop (length pre) s else s)"

text \<open>\<open>strconv.Itoa\<close> (also what \<open>%d\<close> prints): the decimal digits, with a sign.\<close>

definition digit_char :: "nat \<Rightarrow> char" where
  "digit_char d = ''0123456789'' ! d"

fun decimal :: "nat \<Rightarrow> string" where
  "decimal n = (if n < 10 then [digit_char n] else decimal (n div 10) @ [digit_char (n mod 10)])"

declare decimal.simps [simp del]

definition strconv_Itoa :: "int \<Rightarrow> string" where
  "strconv_Itoa i = (if i < 0 then CHR ''-'' # decimal (nat (- i)) else decimal (nat i))"

text \<open>\<open>net.JoinHostPort\<close>: a host with a colon is taken for an IPv6 literal and bracketed.\<close>

definition net_JoinHostPort :: "string \<Rightarrow> string \<Rightarrow> string" where
  "net_JoinHostPort host port =
     (if CHR '':'' \<in> set host then ''['' @ host @ '']:'' @ port else host @ '':'' @ port)"

section \<open>Errors\<close>

text \<open>
  A Go \<open>error\<close> is modelled by its message (what \<open>Error()\<close> returns), since the code
  compares errors by message; a runtime panic is a value of its own. The collaborators
  outside the sources (Helm, the YAML and semver libraries, the file system) hand back
  messages only, so that no panic comes from them; the one exception is
  \<open>strvals.ParseInto\<close> when it is handed a nil map.
\<close>

datatype error = Err string | Panic string

section \<open>Collaborators of the cloud installer\<close>

text \<open>The semver library (\<open>github.com/blang/semver\<close>): \<open>Make\<close> parses or gives an error
  (and then the zero \<open>Version{}\<close>), \<open>LT\<close> compares.\<close>

record 'ver semver_lib =
  semver_Make :: "string \<Rightarrow> string + 'ver"
  semver_zero :: 'ver
  semver_LT :: "'ver \<Rightarrow> 'ver \<Rightarrow> bool"

text \<open>
  The profile store (\<open>readProfiles\<close>, \<open>LoadValues\<close>), the minimum version constant
  \<open>types.HelmSupportedMinVersion\<close>, and the two library calls that build the value tree:
  \<open>yaml.Unmarshal\<close> into a map and \<open>strvals.ParseInto\<close>. \<open>new_map\<close> is the empty
  \<open>map[string]interface{}{}\<close>. \<open>yaml.Unmarshal\<close> is given the address of the map variable,
  so it may leave it nil (\<open>None\<close>); \<open>strvals.ParseInto\<close> is given the map itself, so it
  changes what a map that is not nil holds and cannot make it nil, and what it does with a
  nil map (return, fail or panic) is \<open>ParseInto_nil\<close>. A \<open>map[string]bool\<close> read at a
  missing key is \<open>false\<close>.
  \<open>missing_operands\<close> is what \<open>fmt.Errorf\<close> makes of a format that has verbs and no
  operands.
\<close>

record 'tree profile_env =
  HelmSupportedMinVersion :: string
  readProfiles :: "string + (string \<Rightarrow> bool)"
  missing_operands :: "string \<Rightarrow> string"
  LoadValues :: "string \<Rightarrow> string + string"
  new_map :: 'tree
  yaml_Unmarshal :: "string \<Rightarrow> 'tree \<Rightarrow> string + 'tree option"
  strvals_ParseInto :: "string \<Rightarrow> 'tree \<Rightarrow> string + 'tree"
  ParseInto_nil :: "string \<Rightarrow> error option"

text \<open>Modelled from the spec: the constant \<open>types.VersionProfileKey\<close> of package
  \<open>keadm/cmd/keadm/app/cmd/common\<close>, the profile key \<open>version\<close>.\<close>

definition VersionProfileKey :: string where
  "VersionProfileKey = ''version''"

text \<open>Modelled from the spec: the constant \<open>types.IptablesMgrProfileKey\<close> of the same
  package, the profile key \<open>iptablesMgrMode\<close>.\<close>

definition IptablesMgrProfileKey :: string where
  "IptablesMgrProfileKey = ''iptablesMgrMode''"

text \<open>Modelled from the spec: the constant \<open>types.InternalIptablesMgrMode\<close> of the same
  package, the mode \<open>internal\<close>.\<close>

definition InternalIptablesMgrMode :: string where
  "InternalIptablesMgrMode = ''internal''"

text \<open>Modelled from the spec: the constant \<open>types.ExternalIptablesMgrMode\<close> of the same
  package, the mode \<open>external\<close>.\<close>

definition ExternalIptablesMgrMode :: string where
  "ExternalIptablesMgrMode = ''external''"

section \<open>The cloud installer: \<open>KubeCloudHelmInstTool\<close>\<close>

text \<open>The struct, with the two fields of the embedded \<open>Common\<close> that the code sets and
  the field \<open>Action\<close> that \<open>init-beta.go\<close> fills in.\<close>

record 'ver KubeCloudHelmInstTool =
  ToolVersion :: 'ver
  KubeConfig :: string
  AdvertiseAddress :: string
  Manifests :: string
  Namespace :: string
  DryRun :: bool
  CloudcoreImage :: string
  CloudcoreTag :: string
  IptablesMgrImage :: string
  IptablesMgrTag :: string
  Sets :: "string list"
  Profile :: string
  ProfileKey :: string
  Force :: bool
  Action :: string

subsection \<open>\<open>rebuildFlagVals\<close>\<close>

text \<open>The first half appends one override per flag that is set; an advertise address
  list is split at commas and indexed.\<close>

fun advertiseSets :: "nat \<Rightarrow> string list \<Rightarrow> string list" where
  "advertiseSets index [] = []"
| "advertiseSets index (addr # addrs) =
     (''cloudCore.modules.cloudHub.advertiseAddress['' @ decimal index @ '']='' @ addr)
       # advertiseSets (index + 1) addrs"

definition appendFlagVals :: "'ver KubeCloudHelmInstTool \<Rightarrow> string list" where
  "appendFlagVals cu =
     Sets cu
     @ (if AdvertiseAddress cu \<noteq> [] then advertiseSets 0 (strings_Split (AdvertiseAddress cu) CHR '','') else [])
     @ (if CloudcoreImage cu \<noteq> [] then [''cloudCore.image.repository='' @ CloudcoreImage cu] else [])
     @ (if CloudcoreTag cu \<noteq> [] then [''cloudCore.image.tag='' @ CloudcoreTag cu] else [])
     @ (if IptablesMgrImage cu \<noteq> [] then [''iptablesManager.image.repository='' @ IptablesMgrImage cu] else [])
     @ (if IptablesMgrTag cu \<noteq> [] then [''iptablesManager.image.tag='' @ IptablesMgrTag cu] else [])"

text \<open>
  The loop over the sorted overrides. Its state is the index, \<open>formerValue\<close>, the slice
  \<open>sets\<close> built so far and the lines printed so far. \<open>sets[len(sets)-1] = s\<close> on an empty
  slice is an index out of range, a panic.
\<close>

definition unsupported_line :: "string \<Rightarrow> string" where
  "unsupported_line s = ''Unsported flags: '' @ s"

fun dedupLoop ::
  "nat \<Rightarrow> string \<Rightarrow> string list \<Rightarrow> string list \<Rightarrow> string list \<Rightarrow> string list \<times> (error + string list)"
where
  "dedupLoop index formerValue sets printed [] = (printed, Inr sets)"
| "dedupLoop index formerValue sets printed (s # rest) =
     (let p = strings_Split s CHR ''='' in
      if length p < 2 then
        dedupLoop (index + 1) formerValue sets (printed @ [unsupported_line s]) rest
      else if index > 0 \<and> p ! 0 = formerValue then
        (if sets = [] then (printed, Inl (Panic ''index out of range [-1]''))
         else dedupLoop (index + 1) (p ! 0) (sets[length sets - 1 := s]) printed rest)
      else dedupLoop (index + 1) (p ! 0) (sets @ [s]) printed rest)"

declare dedupLoop.simps(2) [simp del]

text \<open>\<open>rebuildFlagVals\<close>: what is printed, and the tool with its new \<open>Sets\<close> (the function
  itself only ever returns \<open>nil\<close>).\<close>

definition rebuildFlagVals ::
  "'ver KubeCloudHelmInstTool \<Rightarrow> string list \<times> (error + 'ver KubeCloudHelmInstTool)" where
  "rebuildFlagVals cu =
     (case dedupLoop 0 [] [] [] (sort (appendFlagVals cu)) of
        (printed, Inl e) \<Rightarrow> (printed, Inl e)
      | (printed, Inr sets) \<Rightarrow> (printed, Inr (cu\<lparr>Sets := sets\<rparr>)))"

text \<open>The merger as the specification words it: sort, drop what has no \<open>=\<close>, and walk
  the rest, a later expression replacing its neighbour of the same path.\<close>

definition has_eq :: "string \<Rightarrow> bool" where
  "has_eq s = (CHR ''='' \<in> set s)"

definition path_of :: "string \<Rightarrow> string" where
  "path_of s = takeWhile (\<lambda>c. c \<noteq> CHR ''='') s"

fun spec_walk :: "string list \<Rightarrow> string list" where
  "spec_walk [] = []"
| "spec_walk [x] = [x]"
| "spec_walk (x # y # zs) =
     (if path_of x = path_of y then spec_walk (y # zs) else x # spec_walk (y # zs))"

definition spec_merge :: "string list \<Rightarrow> string list" where
  "spec_merge overrides = spec_walk (filter has_eq (sort overrides))"

text \<open>The warnings the specification asks for: one line for each dropped expression.\<close>

definition warnings :: "string list \<Rightarrow> string list" where
  "warnings ys = map unsupported_line (filter (\<lambda>s. \<not> has_eq s) ys)"

text \<open>
  The one shape of sorted input on which the loop leaves the specification: the list
  starts with an expression that is dropped, and the first expression that is kept has the
  empty path (it starts with \<open>=\<close>). Its path equals the initial \<open>formerValue\<close> and the
  index is positive, so the loop writes to the last element of an empty slice.
\<close>

definition slip_input :: "string list \<Rightarrow> bool" where
  "slip_input ys =
     (case dropWhile (\<lambda>s. \<not> has_eq s) ys of
        [] \<Rightarrow> False
      | k # _ \<Rightarrow> \<not> has_eq (hd ys) \<and> path_of k = [])"

subsection \<open>\<open>checkProfile\<close>, \<open>handleProfile\<close>, \<open>BeforeRenderer\<close>\<close>

text \<open>
  \<open>checkProfile\<close> builds its second error by \<open>fmt.Errorf(fmt.Sprintf(...))\<close>: the message
  with the profile in it is used as a format with no operands. A format without \<open>%\<close> is
  printed as it is.
\<close>

definition Errorf_no_operands :: "(string \<Rightarrow> string) \<Rightarrow> string \<Rightarrow> string" where
  "Errorf_no_operands verbs format = (if CHR ''%'' \<in> set format then verbs format else format)"

definition checkProfile :: "'tree profile_env \<Rightarrow> 'ver KubeCloudHelmInstTool \<Rightarrow> error + unit" where
  "checkProfile env cu =
     (case readProfiles env of
        Inl _ \<Rightarrow> Inl (Err ''cannot list profile'')
      | Inr validProfiles \<Rightarrow>
          if \<not> validProfiles (ProfileKey cu) then
            Inl (Err (Errorf_no_operands (missing_operands env) (''unsupported profile '' @ Profile cu)))
          else Inr ())"

text \<open>The variable \<open>minVersion\<close> of \<open>handleProfile\<close>: the error of \<open>Make\<close> is dropped,
  and with it comes the zero version.\<close>

definition minVersion :: "'ver semver_lib \<Rightarrow> 'tree profile_env \<Rightarrow> 'ver" where
  "minVersion sem env =
     (case semver_Make sem (strings_TrimPrefix (HelmSupportedMinVersion env) ''v'') of
        Inl _ \<Rightarrow> semver_zero sem
      | Inr m \<Rightarrow> m)"

text \<open>
  \<open>handleProfile\<close>. In the \<open>default\<close> branch of the inner switch the source assigns the
  external mode to its parameter \<open>profileValue\<close>, which nothing reads afterwards; the
  \<open>let\<close> below is that assignment.
\<close>

definition handleProfile ::
  "'ver semver_lib \<Rightarrow> 'tree profile_env \<Rightarrow> 'ver KubeCloudHelmInstTool \<Rightarrow> string
     \<Rightarrow> error + 'ver KubeCloudHelmInstTool" where
  "handleProfile sem env cu profileValue =
     (if ProfileKey cu = VersionProfileKey then
        (let profileValueSuffix = strings_TrimPrefix profileValue ''v'' in
         if profileValue \<noteq> profileValueSuffix then
           (case semver_Make sem profileValueSuffix of
              Inl msg \<Rightarrow> Inl (Err msg)
            | Inr version \<Rightarrow>
                if semver_LT sem version (minVersion sem env) then
                  Inl (Err (''the given version '' @ profileValue
                       @ '' is not supported, you can try binary deployments with this version''))
                else Inr (cu\<lparr>Sets := Sets cu
                       @ [''cloudCore.image.tag=v'' @ profileValueSuffix,
                          ''iptablesManager.image.tag=v'' @ profileValueSuffix]\<rparr>))
         else Inr (cu\<lparr>Sets := Sets cu
                @ [''cloudCore.image.tag='' @ profileValue,
                   ''iptablesManager.image.tag='' @ profileValue]\<rparr>))
      else if ProfileKey cu = IptablesMgrProfileKey then
        (if profileValue = InternalIptablesMgrMode \<or> profileValue = ExternalIptablesMgrMode then
           Inr (cu\<lparr>Sets := Sets cu @ [''iptablesManager.mode='' @ profileValue]\<rparr>)
         else (let profileValue = ExternalIptablesMgrMode in Inr cu))
      else Inr cu)"

text \<open>\<open>BeforeRenderer\<close>: the errors of \<open>checkProfile\<close> and \<open>handleProfile\<close> are replaced by
  its own messages.\<close>

definition BeforeRenderer ::
  "'ver semver_lib \<Rightarrow> 'tree profile_env \<Rightarrow> 'ver KubeCloudHelmInstTool
     \<Rightarrow> string list \<times> (error + 'ver KubeCloudHelmInstTool)" where
  "BeforeRenderer sem env cu0 =
     (let cu = (if Profile cu0 = [] then
                  cu0\<lparr>Profile := VersionProfileKey @ ''='' @ HelmSupportedMinVersion env\<rparr>
                else cu0);
          p = strings_Split (Profile cu) CHR ''=''
      in if length p < 2 then ([], Inl (Err (''invalid profile '' @ Profile cu)))
         else
           (let cu = cu\<lparr>ProfileKey := p ! 0\<rparr> in
            case checkProfile env cu of
              Inl _ \<Rightarrow> ([], Inl (Err (''invalid profile '' @ Profile cu)))
            | Inr _ \<Rightarrow>
                (case handleProfile sem env cu (p ! 1) of
                   Inl _ \<Rightarrow> ([], Inl (Err (''can not handle profile '' @ Profile cu)))
                 | Inr cu \<Rightarrow> rebuildFlagVals cu)))"

subsection \<open>\<open>combineProfVals\<close>\<close>

text \<open>The loop over \<open>cu.Sets\<close>; the map variable is \<open>None\<close> when it is nil.\<close>

fun parseSets :: "'tree profile_env \<Rightarrow> string list \<Rightarrow> 'tree option \<Rightarrow> error + 'tree option" where
  "parseSets env [] profileValsMap = Inr profileValsMap"
| "parseSets env (v # vs) None =
     (case ParseInto_nil env v of
        None \<Rightarrow> parseSets env vs None
      | Some (Err msg) \<Rightarrow> Inl (Err (''failed parsing --set data:'' @ msg))
      | Some (Panic msg) \<Rightarrow> Inl (Panic msg))"
| "parseSets env (v # vs) (Some m) =
     (case strvals_ParseInto env v m of
        Inl msg \<Rightarrow> Inl (Err (''failed parsing --set data:'' @ msg))
      | Inr m' \<Rightarrow> parseSets env vs (Some m'))"

text \<open>The pair \<open>(nil, err)\<close> is \<open>Inl err\<close>, the pair \<open>(profileValsMap, nil)\<close> is \<open>Inr\<close> of
  the map variable, which is \<open>Some\<close> of a map when it is not nil.\<close>

definition combineProfVals ::
  "'tree profile_env \<Rightarrow> 'ver KubeCloudHelmInstTool \<Rightarrow> error + 'tree option" where
  "combineProfVals env cu =
     (case LoadValues env (ProfileKey cu) of
        Inl msg \<Rightarrow> Inl (Err (''cannot load profile yaml:'' @ msg))
      | Inr profileValue \<Rightarrow>
          (case yaml_Unmarshal env profileValue (new_map env) of
             Inl msg \<Rightarrow> Inl (Err (''failed to unmarshal values: '' @ msg))
           | Inr profileValsMap \<Rightarrow> parseSets env (Sets cu) profileValsMap))"

subsection \<open>\<open>RunHelmInstall\<close>\<close>

definition DefaultHelmTimeout :: nat where
  "DefaultHelmTimeout = 60"

definition DefaultHelmInstall :: bool where
  "DefaultHelmInstall = True"

definition DefaultHelmWait :: bool where
  "DefaultHelmWait = True"

definition DefaultHelmCreateNs :: bool where
  "DefaultHelmCreateNs = True"

text \<open>The fields of \<open>action.Upgrade\<close> and \<open>action.Install\<close> that the code sets; the timeout
  is in seconds, and the zero values are what \<open>NewUpgrade\<close> and \<open>NewInstall\<close> leave.\<close>

record helmUpgrade =
  up_DryRun :: bool
  up_Namespace :: string
  up_Wait :: bool
  up_Timeout :: nat
  up_Install :: bool

record helmInstall =
  in_DryRun :: bool
  in_Namespace :: string
  in_Wait :: bool
  in_Timeout :: nat
  in_CreateNamespace :: bool
  in_ReleaseName :: string

record ('chart, 'tree) Renderer =
  componentName :: string
  chart :: 'chart
  profileValsMap :: 'tree

text \<open>What reaches the Helm backend, in order.\<close>

datatype ('chart, 'tree) helm_call =
    Upgrade_call helmUpgrade string 'chart 'tree
  | Install_call helmInstall 'chart 'tree

text \<open>
  The backend: \<open>cfg.Init\<close> (given the kubeconfig and the namespace), \<open>helmUpgrade.Run\<close>,
  \<open>helmInstall.Run\<close>, each giving the message of its error if it fails, and the message of
  \<open>driver.NewErrNoDeployedReleases\<close> for a name.
\<close>

record ('chart, 'tree) helm_backend =
  cfg_Init :: "string \<Rightarrow> string \<Rightarrow> string option"
  Upgrade_Run :: "helmUpgrade \<Rightarrow> string \<Rightarrow> 'chart \<Rightarrow> 'tree \<Rightarrow> string option"
  Install_Run :: "helmInstall \<Rightarrow> 'chart \<Rightarrow> 'tree \<Rightarrow> string option"
  NewErrNoDeployedReleases :: "string \<Rightarrow> string"

definition newUpgrade :: "'ver KubeCloudHelmInstTool \<Rightarrow> helmUpgrade" where
  "newUpgrade cu =
     \<lparr>up_DryRun = DryRun cu, up_Namespace = Namespace cu,
      up_Wait = (if \<not> Force cu then DefaultHelmWait else False),
      up_Timeout = (if \<not> Force cu then DefaultHelmTimeout else 0),
      up_Install = DefaultHelmInstall\<rparr>"

definition newInstall :: "'ver KubeCloudHelmInstTool \<Rightarrow> string \<Rightarrow> helmInstall" where
  "newInstall cu name =
     \<lparr>in_DryRun = DryRun cu, in_Namespace = Namespace cu,
      in_Wait = (if \<not> Force cu then DefaultHelmWait else False),
      in_Timeout = (if \<not> Force cu then DefaultHelmTimeout else 0),
      in_CreateNamespace = DefaultHelmCreateNs, in_ReleaseName = name\<rparr>"

definition RunHelmInstall ::
  "('chart, 'tree) helm_backend \<Rightarrow> 'ver KubeCloudHelmInstTool \<Rightarrow> ('chart, 'tree) Renderer
     \<Rightarrow> ('chart, 'tree) helm_call list \<times> (error + unit)" where
  "RunHelmInstall be cu r =
     (case cfg_Init be (KubeConfig cu) (Namespace cu) of
        Some msg \<Rightarrow> ([], Inl (Err msg))
      | None \<Rightarrow>
          (let helmUpgrade = newUpgrade cu;
               upgrade = Upgrade_call helmUpgrade (componentName r) (chart r) (profileValsMap r)
           in case Upgrade_Run be helmUpgrade (componentName r) (chart r) (profileValsMap r) of
                None \<Rightarrow> ([upgrade], Inr ())
              | Some err \<Rightarrow>
                  (let errReleaseNotFound = NewErrNoDeployedReleases be (componentName r) in
                   if err = errReleaseNotFound then
                     (let helmInstall = newInstall cu (componentName r);
                          install = Install_call helmInstall (chart r) (profileValsMap r)
                      in case Install_Run be helmInstall (chart r) (profileValsMap r) of
                           Some err' \<Rightarrow> ([upgrade, install], Inl (Err err'))
                         | None \<Rightarrow> ([upgrade, install], Inr ()))
                   else ([upgrade], Inl (Err err)))))"

section \<open>\<open>AddInitBeta2ToolsList\<close>\<close>

record InitBetaOptions =
  opt_KubeConfig :: string
  opt_AdvertiseAddress :: string
  opt_Manifests :: string
  opt_Namespace :: string
  opt_DryRun :: bool
  opt_CloudcoreImage :: string
  opt_CloudcoreTag :: string
  opt_IptablesMgrImage :: string
  opt_IptablesMgrTag :: string
  opt_Sets :: "string list"
  opt_Profile :: string
  opt_Force :: bool

text \<open>
  What the function takes from outside the sources: \<open>util.RetryTimes\<close>, the answers of
  \<open>util.GetLatestVersion\<close> (the answer to the call number \<open>i\<close>, counted from 0), and the
  constants \<open>types.DefaultKubeEdgeVersion\<close>, \<open>constants.SystemNamespace\<close> and
  \<open>types.HelmInstallAction\<close>.
\<close>

record version_env =
  RetryTimes :: nat
  GetLatestVersion :: "nat \<Rightarrow> string + string"
  DefaultKubeEdgeVersion :: string
  SystemNamespace :: string
  HelmInstallAction :: string

datatype fetch_event = GetLatestVersion_call | Println string

text \<open>
  The loop \<open>for i := 0; i < util.RetryTimes; i++\<close>, by recursion on the attempts that are
  left. It gives the events and the variables \<open>kubeVer\<close> and \<open>latestVersion\<close>.
\<close>

fun fetchLoop ::
  "version_env \<Rightarrow> nat \<Rightarrow> nat \<Rightarrow> fetch_event list \<Rightarrow> fetch_event list \<times> string \<times> string" where
  "fetchLoop env 0 i events = (events, [], [])"
| "fetchLoop env (Suc left) i events =
     (case GetLatestVersion env i of
        Inl err \<Rightarrow>
          fetchLoop env left (Suc i)
            (events @ [GetLatestVersion_call,
               Println (''Failed to get the latest KubeEdge release version, error:  '' @ err)])
      | Inr version \<Rightarrow>
          if length version > 0 then
            (events @ [GetLatestVersion_call], strings_TrimPrefix version ''v'', version)
          else fetchLoop env left (Suc i) (events @ [GetLatestVersion_call]))"

text \<open>\<open>semver.MustParse\<close> panics where \<open>Make\<close> gives an error. The function returns \<open>nil\<close>
  and has stored the tool under \<open>helm\<close> in the tool list.\<close>

definition AddInitBeta2ToolsList ::
  "'ver semver_lib \<Rightarrow> version_env \<Rightarrow> (string \<rightharpoonup> 'ver KubeCloudHelmInstTool) \<Rightarrow> InitBetaOptions
     \<Rightarrow> fetch_event list \<times> (error + (string \<rightharpoonup> 'ver KubeCloudHelmInstTool))" where
  "AddInitBeta2ToolsList sem env toolList initBetaOptions =
     (case fetchLoop env (RetryTimes env) 0 [] of
        (events, kubeVer, latestVersion) \<Rightarrow>
          (let (events, kubeVer) =
                 (if length latestVersion = 0 then
                    (events @ [Println (''Failed to get the latest KubeEdge release version, will use default version:  ''
                                 @ DefaultKubeEdgeVersion env)],
                     DefaultKubeEdgeVersion env)
                  else (events, kubeVer));
               namespace = (if opt_Namespace initBetaOptions = [] then SystemNamespace env
                            else opt_Namespace initBetaOptions)
           in case semver_Make sem kubeVer of
                Inl msg \<Rightarrow> (events, Inl (Panic (''semver: Parse('' @ kubeVer @ ''): '' @ msg)))
              | Inr version \<Rightarrow>
                  (events,
                   Inr (toolList(''helm'' \<mapsto>
                     \<lparr>ToolVersion = version,
                      KubeConfig = opt_KubeConfig initBetaOptions,
                      AdvertiseAddress = opt_AdvertiseAddress initBetaOptions,
                      Manifests = opt_Manifests initBetaOptions,
                      Namespace = namespace,
                      DryRun = opt_DryRun initBetaOptions,
                      CloudcoreImage = opt_CloudcoreImage initBetaOptions,
                      CloudcoreTag = opt_CloudcoreTag initBetaOptions,
                      IptablesMgrImage = opt_IptablesMgrImage initBetaOptions,
                      IptablesMgrTag = opt_IptablesMgrTag initBetaOptions,
                      Sets = opt_Sets initBetaOptions,
                      Profile = opt_Profile initBetaOptions,
                      ProfileKey = [],
                      Force = opt_Force initBetaOptions,
                      Action = HelmInstallAction env\<rparr>)))))"

section \<open>The edge installer: \<open>createEdgeConfigFiles\<close>\<close>

record KubeEdgeInstTool =
  CertPath :: string
  CloudCoreIP :: string
  EdgeNodeName :: string
  HasDefaultTaint :: bool
  EdgeNodeIP :: string
  Region :: string
  ConfigPath :: string
  RuntimeType :: string
  RemoteRuntimeEndpoint :: string
  Token :: string
  CertPort :: string
  QuicPort :: string
  TunnelPort :: string
  CGroupDriver :: string
  TarballPath :: string
  Labels :: "string list"

record Taint =
  taint_Key :: string
  taint_Effect :: string

text \<open>The fields of \<open>EdgeCoreConfig\<close> that the function writes, named by their path under
  \<open>Modules\<close>.\<close>

record EdgeCoreConfig =
  EdgeHub_WebSocket_Server :: string
  EdgeHub_HTTPServer :: string
  EdgeHub_Quic_Server :: string
  EdgeHub_Token :: string
  EdgeStream_TunnelServer :: string
  Edged_HostnameOverride :: string
  Edged_NodeIP :: string
  Edged_RuntimeType :: string
  Edged_CGroupDriver :: string
  Edged_RemoteRuntimeEndpoint :: string
  Edged_RemoteImageEndpoint :: string
  Edged_Taints :: "Taint list"
  Edged_Labels :: "string \<rightharpoonup> string"

text \<open>Modelled from the spec: the constant \<open>v1alpha1.CGroupDriverSystemd\<close> of package
  \<open>pkg/apis/componentconfig/edgecore/v1alpha1\<close>, the driver \<open>systemd\<close>.\<close>

definition CGroupDriverSystemd :: string where
  "CGroupDriverSystemd = ''systemd''"

text \<open>Modelled from the spec: the constant \<open>v1alpha1.CGroupDriverCGroupFS\<close> of the same
  package, the driver \<open>cgroupfs\<close>.\<close>

definition CGroupDriverCGroupFS :: string where
  "CGroupDriverCGroupFS = ''cgroupfs''"

text \<open>
  What the function takes from outside the sources: the outcome of \<open>os.MkdirAll\<close>, the
  paths \<open>KubeEdgeConfigDir\<close> and \<open>KubeEdgeEdgeCoreNewYaml\<close>, \<open>NewDefaultEdgeCoreConfig\<close>,
  the validator (the messages of the errors it reports), \<open>ToAggregate().Errors()\<close> on that
  list, \<open>util.SpliceErrors\<close>, \<open>types.Write2File\<close> and \<open>constants.DefaultTunnelPort\<close>.
\<close>

record edge_env =
  MkdirAll :: "string option"
  KubeEdgeConfigDir :: string
  KubeEdgeEdgeCoreNewYaml :: string
  NewDefaultEdgeCoreConfig :: EdgeCoreConfig
  ValidateEdgeCoreConfiguration :: "EdgeCoreConfig \<Rightarrow> string list"
  ToAggregate_Errors :: "string list \<Rightarrow> string list"
  SpliceErrors :: "string list \<Rightarrow> string"
  Write2File :: "string \<Rightarrow> EdgeCoreConfig \<Rightarrow> string option"
  DefaultTunnelPort :: int

text \<open>What the function does to the outside, in order.\<close>

datatype edge_call =
    MkdirAll_call string
  | Validate_call EdgeCoreConfig
  | Write2File_call string EdgeCoreConfig

text \<open>The blocks of the function body, one definition each.\<close>

definition setNode :: "KubeEdgeInstTool \<Rightarrow> EdgeCoreConfig \<Rightarrow> EdgeCoreConfig" where
  "setNode ku c =
     (let c = c\<lparr>EdgeHub_WebSocket_Server := CloudCoreIP ku\<rparr>;
          c = (if EdgeNodeName ku \<noteq> [] then c\<lparr>Edged_HostnameOverride := EdgeNodeName ku\<rparr> else c);
          c = (if EdgeNodeIP ku \<noteq> [] then c\<lparr>Edged_NodeIP := EdgeNodeIP ku\<rparr> else c)
      in if RuntimeType ku \<noteq> [] then c\<lparr>Edged_RuntimeType := RuntimeType ku\<rparr> else c)"

definition setCGroupDriver :: "KubeEdgeInstTool \<Rightarrow> EdgeCoreConfig \<Rightarrow> error + EdgeCoreConfig" where
  "setCGroupDriver ku c =
     (if CGroupDriver ku \<noteq> [] then
        (if CGroupDriver ku = CGroupDriverSystemd then Inr (c\<lparr>Edged_CGroupDriver := CGroupDriverSystemd\<rparr>)
         else if CGroupDriver ku = CGroupDriverCGroupFS then Inr (c\<lparr>Edged_CGroupDriver := CGroupDriverCGroupFS\<rparr>)
         else Inl (Err (''unsupported CGroupDriver: '' @ CGroupDriver ku)))
      else Inr c)"

definition setRuntimeToken :: "KubeEdgeInstTool \<Rightarrow> EdgeCoreConfig \<Rightarrow> EdgeCoreConfig" where
  "setRuntimeToken ku c =
     (let c = (if RemoteRuntimeEndpoint ku \<noteq> [] then
                 c\<lparr>Edged_RemoteRuntimeEndpoint := RemoteRuntimeEndpoint ku,
                   Edged_RemoteImageEndpoint := RemoteRuntimeEndpoint ku\<rparr>
               else c)
      in if Token ku \<noteq> [] then c\<lparr>EdgeHub_Token := Token ku\<rparr> else c)"

definition setHTTPServer :: "KubeEdgeInstTool \<Rightarrow> EdgeCoreConfig \<Rightarrow> EdgeCoreConfig" where
  "setHTTPServer ku c =
     (if CertPort ku \<noteq> [] then
        c\<lparr>EdgeHub_HTTPServer := ''https://'' @ strings_Split (CloudCoreIP ku) CHR '':'' ! 0 @ '':'' @ CertPort ku\<rparr>
      else
        c\<lparr>EdgeHub_HTTPServer := ''https://'' @ strings_Split (CloudCoreIP ku) CHR '':'' ! 0 @ '':10002''\<rparr>)"

definition setQuicServer :: "KubeEdgeInstTool \<Rightarrow> EdgeCoreConfig \<Rightarrow> EdgeCoreConfig" where
  "setQuicServer ku c =
     (if QuicPort ku \<noteq> [] then
        c\<lparr>EdgeHub_Quic_Server := strings_Split (CloudCoreIP ku) CHR '':'' ! 0 @ '':'' @ QuicPort ku\<rparr>
      else
        c\<lparr>EdgeHub_Quic_Server := strings_Split (CloudCoreIP ku) CHR '':'' ! 0 @ '':10001''\<rparr>)"

definition setTunnelServer :: "KubeEdgeInstTool \<Rightarrow> EdgeCoreConfig \<Rightarrow> EdgeCoreConfig" where
  "setTunnelServer ku c =
     (if TunnelPort ku \<noteq> [] then
        c\<lparr>EdgeStream_TunnelServer := strings_Split (CloudCoreIP ku) CHR '':'' ! 0 @ '':'' @ TunnelPort ku\<rparr>
      else
        c\<lparr>EdgeStream_TunnelServer := strings_Split (CloudCoreIP ku) CHR '':'' ! 0 @ '':10004''\<rparr>)"

definition setTaint :: "KubeEdgeInstTool \<Rightarrow> EdgeCoreConfig \<Rightarrow> EdgeCoreConfig" where
  "setTaint ku c =
     (if HasDefaultTaint ku then
        c\<lparr>Edged_Taints := Edged_Taints c
             @ [\<lparr>taint_Key = ''node-role.kubernetes.io/edge'', taint_Effect = ''NoSchedule''\<rparr>]\<rparr>
      else c)"

text \<open>The label loop reads the second part of the split of every label: with one part
  only, the index is out of range.\<close>

fun labelsLoop :: "(string \<rightharpoonup> string) \<Rightarrow> string list \<Rightarrow> error + (string \<rightharpoonup> string)" where
  "labelsLoop labelsMap [] = Inr labelsMap"
| "labelsLoop labelsMap (label # rest) =
     (let p = strings_Split label CHR ''='' in
      if length p < 2 then Inl (Panic ''index out of range [1] with length 1'')
      else labelsLoop (labelsMap(p ! 0 \<mapsto> p ! 1)) rest)"

definition setLabels :: "KubeEdgeInstTool \<Rightarrow> EdgeCoreConfig \<Rightarrow> error + EdgeCoreConfig" where
  "setLabels ku c =
     (if length (Labels ku) \<ge> 1 then
        (case labelsLoop Map.empty (Labels ku) of
           Inl e \<Rightarrow> Inl e
         | Inr labelsMap \<Rightarrow> Inr (c\<lparr>Edged_Labels := labelsMap\<rparr>))
      else Inr c)"

definition validateAndWrite :: "edge_env \<Rightarrow> EdgeCoreConfig \<Rightarrow> edge_call list \<times> (error + unit)" where
  "validateAndWrite env c =
     (let errs = ValidateEdgeCoreConfiguration env c in
      if length errs > 0 then
        ([Validate_call c], Inl (Err (SpliceErrors env (ToAggregate_Errors env errs))))
      else
        ([Validate_call c, Write2File_call (KubeEdgeEdgeCoreNewYaml env) c],
         (case Write2File env (KubeEdgeEdgeCoreNewYaml env) c of
            Some msg \<Rightarrow> Inl (Err msg)
          | None \<Rightarrow> Inr ())))"

text \<open>The configuration as assembled by \<open>src/unnamed/part_000\<close>, up to the validation.\<close>

definition edgeCoreConfig :: "edge_env \<Rightarrow> KubeEdgeInstTool \<Rightarrow> error + EdgeCoreConfig" where
  "edgeCoreConfig env ku =
     (case setCGroupDriver ku (setNode ku (NewDefaultEdgeCoreConfig env)) of
        Inl e \<Rightarrow> Inl e
      | Inr c \<Rightarrow>
          setLabels ku
            (setTaint ku (setTunnelServer ku (setQuicServer ku (setHTTPServer ku (setRuntimeToken ku c))))))"

definition createEdgeConfigFiles :: "edge_env \<Rightarrow> KubeEdgeInstTool \<Rightarrow> edge_call list \<times> (error + unit)" where
  "createEdgeConfigFiles env ku =
     (case MkdirAll env of
        Some _ \<Rightarrow>
          ([MkdirAll_call (KubeEdgeConfigDir env)],
           Inl (Err (''not able to create '' @ KubeEdgeConfigDir env @ '' folder path'')))
      | None \<Rightarrow>
          (case edgeCoreConfig env ku of
             Inl e \<Rightarrow> ([MkdirAll_call (KubeEdgeConfigDir env)], Inl e)
           | Inr c \<Rightarrow>
               (case validateAndWrite env c of
                  (calls, res) \<Rightarrow> (MkdirAll_call (KubeEdgeConfigDir env) # calls, res))))"

text \<open>
  The second listing of the function (in \<open>helminstaller.go\<close>): the servers and the taint
  come before the cgroup driver, the HTTP server is set once more, and the tunnel server
  is then set from \<open>constants.DefaultTunnelPort\<close>, whatever \<open>TunnelPort\<close> is.
\<close>

definition setTunnelServerDefault :: "edge_env \<Rightarrow> KubeEdgeInstTool \<Rightarrow> EdgeCoreConfig \<Rightarrow> EdgeCoreConfig" where
  "setTunnelServerDefault env ku c =
     (let cloudCoreIP = strings_Split (CloudCoreIP ku) CHR '':'' ! 0;
          c = (if CertPort ku \<noteq> [] then
                 c\<lparr>EdgeHub_HTTPServer := ''https://'' @ cloudCoreIP @ '':'' @ CertPort ku\<rparr>
               else c\<lparr>EdgeHub_HTTPServer := ''https://'' @ cloudCoreIP @ '':10002''\<rparr>)
      in c\<lparr>EdgeStream_TunnelServer :=
             net_JoinHostPort cloudCoreIP (strconv_Itoa (DefaultTunnelPort env))\<rparr>)"

definition edgeCoreConfig2 :: "edge_env \<Rightarrow> KubeEdgeInstTool \<Rightarrow> error + EdgeCoreConfig" where
  "edgeCoreConfig2 env ku =
     (case setCGroupDriver ku
             (setTaint ku (setTunnelServer ku (setQuicServer ku (setHTTPServer ku
                (setNode ku (NewDefaultEdgeCoreConfig env)))))) of
        Inl e \<Rightarrow> Inl e
      | Inr c \<Rightarrow> setLabels ku (setTunnelServerDefault env ku (setRuntimeToken ku c)))"

definition createEdgeConfigFiles2 :: "edge_env \<Rightarrow> KubeEdgeInstTool \<Rightarrow> edge_call list \<times> (error + unit)" where
  "createEdgeConfigFiles2 env ku =
     (case MkdirAll env of
        Some _ \<Rightarrow>
          ([MkdirAll_call (KubeEdgeConfigDir env)],
           Inl (Err (''not able to create '' @ KubeEdgeConfigDir env @ '' folder path'')))
      | None \<Rightarrow>
          (case edgeCoreConfig2 env ku of
             Inl e \<Rightarrow> ([MkdirAll_call (KubeEdgeConfigDir env)], Inl e)
           | Inr c \<Rightarrow>
               (case validateAndWrite env c of
                  (calls, res) \<Rightarrow> (MkdirAll_call (KubeEdgeConfigDir env) # calls, res))))"

text \<open>The three endpoints of a configuration: HTTP server, QUIC server, tunnel server.\<close>

definition servers :: "EdgeCoreConfig \<Rightarrow> string \<times> string \<times> string" where
  "servers c = (EdgeHub_HTTPServer c, EdgeHub_Quic_Server c, EdgeStream_TunnelServer c)"

text \<open>The host of an address: what stands before the first colon.\<close>

definition host_of :: "string \<Rightarrow> string" where
  "host_of addr = takeWhile (\<lambda>c. c \<noteq> CHR '':'') addr"

text \<open>
  The validation gate, as a property of the calls and the result of one run: a
  configuration is written only right after it was validated without errors, and if a
  validated configuration has errors the result is the one error spliced from all the
  messages and nothing is written.
\<close>

definition validation_gate :: "edge_env \<Rightarrow> edge_call list \<times> (error + unit) \<Rightarrow> bool" where
  "validation_gate env run =
     ((\<forall>p c. Write2File_call p c \<in> set (fst run) \<longrightarrow>
          ValidateEdgeCoreConfiguration env c = []
          \<and> (\<exists>before. fst run = before @ [Validate_call c, Write2File_call p c]))
      \<and> (\<forall>c. Validate_call c \<in> set (fst run) \<and> ValidateEdgeCoreConfiguration env c \<noteq> [] \<longrightarrow>
          snd run = Inl (Err (SpliceErrors env (ToAggregate_Errors env (ValidateEdgeCoreConfiguration env c))))
          \<and> (\<forall>p c'. Write2File_call p c' \<notin> set (fst run))))"

section \<open>Inputs for the examples\<close>

text \<open>
  An instance of the semver interface for running examples: versions of the plain form
  \<open>MAJOR.MINOR.PATCH\<close>, decimal and without leading zeros, compared position by
  position. The theorems below hold for every instance; only the examples use this one.
\<close>

fun decimal_value :: "nat \<Rightarrow> string \<Rightarrow> nat option" where
  "decimal_value acc [] = Some acc"
| "decimal_value acc (c # cs) =
     (if CHR ''0'' \<le> c \<and> c \<le> CHR ''9'' then decimal_value (10 * acc + (of_char c - 48)) cs
      else None)"

definition plain_number :: "string \<Rightarrow> nat option" where
  "plain_number s =
     (if s = [] \<or> (length s > 1 \<and> hd s = CHR ''0'') then None else decimal_value 0 s)"

definition plain_Make :: "string \<Rightarrow> string + nat \<times> nat \<times> nat" where
  "plain_Make s =
     (case strings_Split s CHR ''.'' of
        [a, b, c] \<Rightarrow>
          (case (plain_number a, plain_number b, plain_number c) of
             (Some x, Some y, Some z) \<Rightarrow> Inr (x, y, z)
           | _ \<Rightarrow> Inl ''Invalid character(s) found in version'')
      | _ \<Rightarrow> Inl ''No Major.Minor.Patch elements found'')"

definition plain_LT :: "nat \<times> nat \<times> nat \<Rightarrow> nat \<times> nat \<times> nat \<Rightarrow> bool" where
  "plain_LT v w =
     (case (v, w) of
        ((a, b, c), (x, y, z)) \<Rightarrow> a < x \<or> (a = x \<and> (b < y \<or> (b = y \<and> c < z))))"

definition plain_semver :: "(nat \<times> nat \<times> nat) semver_lib" where
  "plain_semver = \<lparr>semver_Make = plain_Make, semver_zero = (0, 0, 0), semver_LT = plain_LT\<rparr>"

text \<open>A cloud tool with every field empty, and an edge tool with every field empty.\<close>

definition blank_cloud_tool :: "'ver \<Rightarrow> 'ver KubeCloudHelmInstTool" where
  "blank_cloud_tool v =
     \<lparr>ToolVersion = v, KubeConfig = [], AdvertiseAddress = [], Manifests = [], Namespace = [],
      DryRun = False, CloudcoreImage = [], CloudcoreTag = [], IptablesMgrImage = [],
      IptablesMgrTag = [], Sets = [], Profile = [], ProfileKey = [], Force = False, Action = []\<rparr>"

definition blank_edge_tool :: KubeEdgeInstTool where
  "blank_edge_tool =
     \<lparr>CertPath = [], CloudCoreIP = [], EdgeNodeName = [], HasDefaultTaint = False, EdgeNodeIP = [],
      Region = [], ConfigPath = [], RuntimeType = [], RemoteRuntimeEndpoint = [], Token = [],
      CertPort = [], QuicPort = [], TunnelPort = [], CGroupDriver = [], TarballPath = [],
      Labels = []\<rparr>"

text \<open>A profile store that knows the keys \<open>version\<close> and \<open>iptablesMgrMode\<close>, with the minimum
  version \<open>v1.3.0\<close> of the specification's example; the value tree is a list of the
  expressions parsed into it.\<close>

definition example_profile_env :: "string list profile_env" where
  "example_profile_env =
     \<lparr>HelmSupportedMinVersion = ''v1.3.0'',
      readProfiles = Inr (\<lambda>k. k = ''version'' \<or> k = ''iptablesMgrMode''),
      missing_operands = (\<lambda>format. format),
      LoadValues = (\<lambda>k. Inr []),
      new_map = [],
      yaml_Unmarshal = (\<lambda>y m. Inr (Some m)),
      strvals_ParseInto = (\<lambda>v m. Inr (m @ [v])),
      ParseInto_nil = (\<lambda>v. Some (Panic ''assignment to entry in nil map''))\<rparr>"

text \<open>A Helm backend that initialises, on which no release is deployed yet, and on which
  an install succeeds; and one whose initialisation fails.\<close>

definition example_backend :: "(unit, string list) helm_backend" where
  "example_backend =
     \<lparr>cfg_Init = (\<lambda>k n. None),
      Upgrade_Run = (\<lambda>u name c v. Some (CHR 0x22 # name @ CHR 0x22 # '' has no deployed releases'')),
      Install_Run = (\<lambda>i c v. None),
      NewErrNoDeployedReleases = (\<lambda>name. CHR 0x22 # name @ CHR 0x22 # '' has no deployed releases'')\<rparr>"

definition unreachable_backend :: "(unit, string list) helm_backend" where
  "unreachable_backend = example_backend\<lparr>cfg_Init := (\<lambda>k n. Some ''Kubernetes cluster unreachable'')\<rparr>"

definition example_renderer :: "(unit, string list) Renderer" where
  "example_renderer = \<lparr>componentName = ''cloudcore'', chart = (), profileValsMap = [''a=1'']\<rparr>"

text \<open>An edge environment: the default configuration is empty, the validator accepts
  everything, the write succeeds.\<close>

definition blank_config :: EdgeCoreConfig where
  "blank_config =
     \<lparr>EdgeHub_WebSocket_Server = [], EdgeHub_HTTPServer = [], EdgeHub_Quic_Server = [],
      EdgeHub_Token = [], EdgeStream_TunnelServer = [], Edged_HostnameOverride = [],
      Edged_NodeIP = [], Edged_RuntimeType = [], Edged_CGroupDriver = [],
      Edged_RemoteRuntimeEndpoint = [], Edged_RemoteImageEndpoint = [], Edged_Taints = [],
      Edged_Labels = Map.empty\<rparr>"

definition example_edge_env :: edge_env where
  "example_edge_env =
     \<lparr>MkdirAll = None, KubeEdgeConfigDir = ''/etc/kubeedge/config'',
      KubeEdgeEdgeCoreNewYaml = ''/etc/kubeedge/config/edgecore.yaml'',
      NewDefaultEdgeCoreConfig = blank_config,
      ValidateEdgeCoreConfiguration = (\<lambda>c. []),
      ToAggregate_Errors = (\<lambda>errs. errs),
      SpliceErrors = concat,
      Write2File = (\<lambda>p c. None),
      DefaultTunnelPort = 10004\<rparr>"

text \<open>The same with a validator that rejects every configuration, with two messages.\<close>

definition rejecting_edge_env :: edge_env where
  "rejecting_edge_env =
     example_edge_env\<lparr>ValidateEdgeCoreConfiguration := (\<lambda>c. [''bad node ip'', ''bad runtime''])\<rparr>"

text \<open>A version source that is never reachable, with three attempts.\<close>

definition example_version_env :: version_env where
  "example_version_env =
     \<lparr>RetryTimes = 3, GetLatestVersion = (\<lambda>i. Inl ''timeout''), DefaultKubeEdgeVersion = ''1.12.1'',
      SystemNamespace = ''kubeedge'', HelmInstallAction = ''install''\<rparr>"

definition example_options :: InitBetaOptions where
  "example_options =
     \<lparr>opt_KubeConfig = ''/root/.kube/config'', opt_AdvertiseAddress = [], opt_Manifests = [],
      opt_Namespace = [], opt_DryRun = False, opt_CloudcoreImage = [], opt_CloudcoreTag = [],
      opt_IptablesMgrImage = [], opt_IptablesMgrTag = [], opt_Sets = [], opt_Profile = [],
      opt_Force = False\<rparr>"

section \<open>Properties of the string functions\<close>

lemma Split_length: "length (strings_Split s c) = Suc (count_list s c)"
  by (induction s) (auto split: list.splits)

lemma Split_ne: "strings_Split s c \<noteq> []"
  by (induction s) (auto split: list.splits)

lemma Split_hd: "strings_Split s c ! 0 = takeWhile (\<lambda>x. x \<noteq> c) s"
  by (induction s) (auto split: list.splits simp: Split_ne)

lemma Split_short: "length (strings_Split s c) < 2 \<longleftrightarrow> c \<notin> set s"
  by (induction s) (auto split: list.splits simp: Split_ne)



lemma dedupLoop_step:
  "dedupLoop index former sets printed (s # rest) =
     (if \<not> has_eq s then
        dedupLoop (Suc index) former sets (printed @ [unsupported_line s]) rest
      else if index > 0 \<and> path_of s = former then
        (if sets = [] then (printed, Inl (Panic ''index out of range [-1]''))
         else dedupLoop (Suc index) (path_of s) (butlast sets @ [s]) printed rest)
      else dedupLoop (Suc index) (path_of s) (sets @ [s]) printed rest)"
proof -
  have "sets \<noteq> [] \<Longrightarrow> sets[length sets - 1 := s] = butlast sets @ [s]"
    by (induction sets rule: rev_induct) auto
  then show ?thesis
    by (simp add: dedupLoop.simps(2) Let_def Split_short Split_hd has_eq_def path_of_def)
qed


lemma dedupLoop_kept:
  "sets \<noteq> [] \<Longrightarrow> former = path_of (last sets) \<Longrightarrow> index > 0 \<Longrightarrow>
   dedupLoop index former sets printed rest =
     (printed @ warnings rest, Inr (butlast sets @ spec_walk (last sets # filter has_eq rest)))"
proof (induction rest arbitrary: index former sets printed)
  case Nil
  then show ?case by (simp add: warnings_def)
next
  case (Cons s rest)
  show ?case
  proof (cases "has_eq s")
    case False
    have "dedupLoop index former sets printed (s # rest) =
          dedupLoop (Suc index) former sets (printed @ [unsupported_line s]) rest"
      using False by (simp add: dedupLoop_step)
    also have "\<dots> = ((printed @ [unsupported_line s]) @ warnings rest,
                    Inr (butlast sets @ spec_walk (last sets # filter has_eq rest)))"
      by (rule Cons.IH) (use Cons.prems in auto)
    finally show ?thesis using False by (simp add: warnings_def)
  next
    case True
    show ?thesis
    proof (cases "path_of s = former")
      case same: True
      have "dedupLoop index former sets printed (s # rest) =
            dedupLoop (Suc index) (path_of s) (butlast sets @ [s]) printed rest"
        using True same Cons.prems by (simp add: dedupLoop_step)
      also have "\<dots> = (printed @ warnings rest,
           Inr (butlast (butlast sets @ [s]) @ spec_walk (last (butlast sets @ [s]) # filter has_eq rest)))"
        by (rule Cons.IH) auto
      finally show ?thesis using True same Cons.prems by (simp add: warnings_def)
    next
      case differ: False
      have "dedupLoop index former sets printed (s # rest) =
            dedupLoop (Suc index) (path_of s) (sets @ [s]) printed rest"
        using True differ by (simp add: dedupLoop_step)
      also have "\<dots> = (printed @ warnings rest,
           Inr (butlast (sets @ [s]) @ spec_walk (last (sets @ [s]) # filter has_eq rest)))"
        by (rule Cons.IH) auto
      finally show ?thesis using True differ Cons.prems
        by (simp add: warnings_def butlast_append)
    qed
  qed
qed

lemma dedupLoop_start:
  "dedupLoop index [] [] printed rest =
     (case dropWhile (\<lambda>s. \<not> has_eq s) rest of
        [] \<Rightarrow> (printed @ warnings rest, Inr [])
      | k # r \<Rightarrow>
          if (index > 0 \<or> \<not> has_eq (hd rest)) \<and> path_of k = []
          then (printed @ warnings (takeWhile (\<lambda>s. \<not> has_eq s) rest), Inl (Panic ''index out of range [-1]''))
          else (printed @ warnings rest, Inr (spec_walk (filter has_eq rest))))"
proof (induction rest arbitrary: index printed)
  case Nil
  then show ?case by (simp add: warnings_def)
next
  case (Cons s rest)
  show ?case
  proof (cases "has_eq s")
    case False
    have step: "dedupLoop index [] [] printed (s # rest) =
          dedupLoop (Suc index) [] [] (printed @ [unsupported_line s]) rest"
      using False by (simp add: dedupLoop_step)
    show ?thesis
    proof (cases "dropWhile (\<lambda>s. \<not> has_eq s) rest")
      case Nil
      show ?thesis using False
        unfolding step Cons.IH by (simp add: Nil warnings_def)
    next
      case later: (Cons k r)
      show ?thesis using False
        unfolding step Cons.IH by (simp add: later warnings_def)
    qed
  next
    case True
    show ?thesis
    proof (cases "index > 0 \<and> path_of s = []")
      case True
      with \<open>has_eq s\<close> show ?thesis by (simp add: dedupLoop_step warnings_def)
    next
      case False
      then have "dedupLoop index [] [] printed (s # rest) =
            dedupLoop (Suc index) (path_of s) [s] printed rest"
        using True by (auto simp add: dedupLoop_step)
      also have "\<dots> = (printed @ warnings rest, Inr (butlast [s] @ spec_walk (last [s] # filter has_eq rest)))"
        by (rule dedupLoop_kept) auto
      finally show ?thesis using True False by (auto simp: warnings_def)
    qed
  qed
qed

lemma dedupLoop_eq:
  "dedupLoop 0 [] [] [] ys =
     (if slip_input ys
      then (warnings (takeWhile (\<lambda>s. \<not> has_eq s) ys), Inl (Panic ''index out of range [-1]''))
      else (warnings ys, Inr (spec_walk (filter has_eq ys))))"
proof (cases "dropWhile (\<lambda>s. \<not> has_eq s) ys")
  case Nil
  then have "filter has_eq ys = []"
    by (simp add: filter_empty_conv)
  then show ?thesis
    unfolding dedupLoop_start slip_input_def Nil by simp
next
  case (Cons k r)
  show ?thesis
    unfolding dedupLoop_start slip_input_def Cons by simp
qed

lemma sort_perm: "mset ys = mset xs \<Longrightarrow> sort ys = sort xs"
  by (metis mset_sort properties_for_sort sorted_sort)




lemma path_mono:
  "has_eq x \<Longrightarrow> has_eq z \<Longrightarrow> x \<le> z \<Longrightarrow> path_of x @ ''='' \<le> path_of z @ ''=''"
proof (induction x arbitrary: z)
  case Nil then show ?case by (simp add: has_eq_def)
next
  case (Cons a x)
  then obtain b z' where z: "z = b # z'" by (cases z) (auto simp: has_eq_def)
  show ?case using Cons unfolding z
    by (auto simp: has_eq_def path_of_def)
qed

lemma spec_walk_subset: "set (spec_walk ys) \<subseteq> set ys"
  by (induction ys rule: spec_walk.induct) auto

lemma spec_walk_sorted: "sorted ys \<Longrightarrow> sorted (spec_walk ys)"
proof (induction ys rule: spec_walk.induct)
  case (3 x y zs)
  have "\<forall>t\<in>set (spec_walk (y # zs)). x \<le> t"
    using 3(3) spec_walk_subset[of "y # zs"] by auto
  with 3 show ?case by auto
qed simp_all

lemma spec_walk_hd: "spec_walk (x # ys) \<noteq> [] \<and> path_of (hd (spec_walk (x # ys))) = path_of x"
  by (induction ys arbitrary: x) auto

lemma spec_walk_distinct:
  assumes "sorted ys" "\<forall>s\<in>set ys. has_eq s"
  shows "distinct (map path_of (spec_walk ys))"
  using assms
proof (induction ys rule: spec_walk.induct)
  case (3 x y zs)
  show ?case
  proof (cases "path_of x = path_of y")
    case True
    with 3 show ?thesis by simp
  next
    case False
    have "path_of x \<noteq> path_of t" if t: "t \<in> set (y # zs)" for t
    proof
      assume eq: "path_of x = path_of t"
      have "x \<le> y" "y \<le> t" using 3(3) t by auto
      then have "path_of x @ ''='' \<le> path_of y @ ''=''" "path_of y @ ''='' \<le> path_of t @ ''=''"
        using 3(4) t by (auto intro!: path_mono)
      with eq have "path_of x @ ''='' = path_of y @ ''=''" by simp
      with False show False by simp
    qed
    then have "path_of x \<notin> path_of ` set (spec_walk (y # zs))"
      using spec_walk_subset[of "y # zs"] by blast
    with 3 False show ?thesis by simp
  qed
qed simp_all

lemma spec_walk_last_wins:
  assumes "sorted ys"
  shows "\<forall>t\<in>set ys. \<exists>s\<in>set (spec_walk ys). path_of s = path_of t \<and> t \<le> s"
  using assms
proof (induction ys rule: spec_walk.induct)
  case (3 x y zs)
  have srt: "sorted (y # zs)" and xy: "x \<le> y" using 3(3) by auto
  have tail: "\<forall>t\<in>set (y # zs). \<exists>s\<in>set (spec_walk (y # zs)). path_of s = path_of t \<and> t \<le> s"
    using 3(1,2) srt by (cases "path_of x = path_of y") auto
  show ?case
  proof
    fix t assume t: "t \<in> set (x # y # zs)"
    show "\<exists>s\<in>set (spec_walk (x # y # zs)). path_of s = path_of t \<and> t \<le> s"
    proof (cases "t = x")
      case True
      show ?thesis
      proof (cases "path_of x = path_of y")
        case same: True
        from tail obtain s where "s \<in> set (spec_walk (y # zs))" "path_of s = path_of y" "y \<le> s"
          by auto
        then show ?thesis using True same xy by force
      next
        case False
        then show ?thesis using True by simp
      qed
    next
      case False
      then have "t \<in> set (y # zs)" using t by simp
      with tail obtain s where "s \<in> set (spec_walk (y # zs))" "path_of s = path_of t" "t \<le> s"
        by blast
      then show ?thesis by (cases "path_of x = path_of y") auto
    qed
  qed
qed simp_all

section \<open>The override merger\<close>

lemma spec_merge_props:
  "sorted (spec_merge xs) \<and> distinct (map path_of (spec_merge xs))
   \<and> set (spec_merge xs) \<subseteq> {s \<in> set xs. has_eq s}
   \<and> (\<forall>t\<in>set xs. has_eq t \<longrightarrow> (\<exists>s\<in>set (spec_merge xs). path_of s = path_of t \<and> t \<le> s))"
proof -
  let ?ys = "filter has_eq (sort xs)"
  have srt: "sorted ?ys" by (simp add: sorted_filter[where f = id, simplified])
  have all: "\<forall>s\<in>set ?ys. has_eq s" by simp
  have "set (spec_walk ?ys) \<subseteq> set ?ys" by (rule spec_walk_subset)
  then have sub: "set (spec_merge xs) \<subseteq> {s \<in> set xs. has_eq s}"
    by (auto simp: spec_merge_def)
  have "\<forall>t\<in>set ?ys. \<exists>s\<in>set (spec_walk ?ys). path_of s = path_of t \<and> t \<le> s"
    using srt by (rule spec_walk_last_wins)
  then have lw: "\<forall>t\<in>set xs. has_eq t \<longrightarrow> (\<exists>s\<in>set (spec_merge xs). path_of s = path_of t \<and> t \<le> s)"
    by (simp add: spec_merge_def)
  show ?thesis
    using spec_walk_sorted[OF srt] spec_walk_distinct[OF srt all] sub lw
    by (simp add: spec_merge_def)
qed

lemma rebuildFlagVals_eq:
  "rebuildFlagVals cu =
     (if slip_input (sort (appendFlagVals cu))
      then (warnings (takeWhile (\<lambda>s. \<not> has_eq s) (sort (appendFlagVals cu))),
            Inl (Panic ''index out of range [-1]''))
      else (warnings (sort (appendFlagVals cu)), Inr (cu\<lparr>Sets := spec_merge (appendFlagVals cu)\<rparr>)))"
  by (simp add: rebuildFlagVals_def dedupLoop_eq spec_merge_def)

lemma example_sorted:
  "sort [''a.b=1'', ''a.b=2'', ''c=3''] = [''a.b=1'', ''a.b=2'', ''c=3'']"
  by code_simp

lemma example_merge:
  "\<not> slip_input [''a.b=1'', ''a.b=2'', ''c=3''] \<and> warnings [''a.b=1'', ''a.b=2'', ''c=3''] = []
   \<and> spec_walk (filter has_eq [''a.b=1'', ''a.b=2'', ''c=3'']) = [''a.b=2'', ''c=3'']"
  by code_simp

text \<open>
  C2 (as amended). Unless the sorted list starts with a dropped expression and its first
  kept expression has the empty path, \<open>rebuildFlagVals\<close> returns: it has printed one
  warning for each expression without \<open>=\<close> and dropped it, and the new \<open>Sets\<close> is the
  sorted list of the kept expressions with neighbours of the same path merged, the later
  one staying. The result is sorted as whole expressions, every path occurs once, every
  element comes from the input, and every kept input expression has an element of its
  path in the result that is not before it in the sort order (the last one wins). For
  the overrides \<open>a.b=1\<close>, \<open>a.b=2\<close>, \<open>c=3\<close> in any order the result is exactly
  \<open>a.b=2\<close>, \<open>c=3\<close>.
\<close>

theorem rebuildFlagVals_merges:
  "(\<not> slip_input (sort (appendFlagVals cu)) \<longrightarrow>
      (\<exists>out. rebuildFlagVals cu = (warnings (sort (appendFlagVals cu)), Inr (cu\<lparr>Sets := out\<rparr>))
         \<and> out = spec_merge (appendFlagVals cu)
         \<and> sorted out \<and> distinct (map path_of out)
         \<and> set out \<subseteq> {s \<in> set (appendFlagVals cu). has_eq s}
         \<and> (\<forall>t\<in>set (appendFlagVals cu). has_eq t \<longrightarrow>
               (\<exists>s\<in>set out. path_of s = path_of t \<and> t \<le> s))))
   \<and> (mset (appendFlagVals cu) = mset [''a.b=1'', ''a.b=2'', ''c=3''] \<longrightarrow>
        rebuildFlagVals cu = ([], Inr (cu\<lparr>Sets := [''a.b=2'', ''c=3'']\<rparr>)))"
proof (intro conjI impI)
  assume "\<not> slip_input (sort (appendFlagVals cu))"
  then show "\<exists>out. rebuildFlagVals cu = (warnings (sort (appendFlagVals cu)), Inr (cu\<lparr>Sets := out\<rparr>))
         \<and> out = spec_merge (appendFlagVals cu)
         \<and> sorted out \<and> distinct (map path_of out)
         \<and> set out \<subseteq> {s \<in> set (appendFlagVals cu). has_eq s}
         \<and> (\<forall>t\<in>set (appendFlagVals cu). has_eq t \<longrightarrow>
               (\<exists>s\<in>set out. path_of s = path_of t \<and> t \<le> s))"
    using spec_merge_props[of "appendFlagVals cu"] by (simp add: rebuildFlagVals_eq)
next
  assume "mset (appendFlagVals cu) = mset [''a.b=1'', ''a.b=2'', ''c=3'']"
  then have "sort (appendFlagVals cu) = sort [''a.b=1'', ''a.b=2'', ''c=3'']"
    by (rule sort_perm)
  then have "sort (appendFlagVals cu) = [''a.b=1'', ''a.b=2'', ''c=3'']"
    by (simp only: example_sorted)
  then show "rebuildFlagVals cu = ([], Inr (cu\<lparr>Sets := [''a.b=2'', ''c=3'']\<rparr>))"
    unfolding rebuildFlagVals_eq spec_merge_def using example_merge by (simp only: if_False)
qed

text \<open>The theorem at two inputs: one with a dropped expression, one a permutation of
  the example.\<close>

theorem rebuildFlagVals_merges_witness:
  "\<not> slip_input (sort (appendFlagVals ((blank_cloud_tool ())\<lparr>Sets := [''c=3'', ''zz'', ''a.b=2'', ''a.b=1'']\<rparr>)))
   \<and> rebuildFlagVals ((blank_cloud_tool ())\<lparr>Sets := [''c=3'', ''zz'', ''a.b=2'', ''a.b=1'']\<rparr>)
       = ([''Unsported flags: zz''],
          Inr ((blank_cloud_tool ())\<lparr>Sets := [''a.b=2'', ''c=3'']\<rparr>))
   \<and> mset (appendFlagVals ((blank_cloud_tool ())\<lparr>Sets := [''c=3'', ''a.b=2'', ''a.b=1'']\<rparr>))
       = mset [''a.b=1'', ''a.b=2'', ''c=3'']
   \<and> rebuildFlagVals ((blank_cloud_tool ())\<lparr>Sets := [''c=3'', ''a.b=2'', ''a.b=1'']\<rparr>)
       = ([], Inr ((blank_cloud_tool ())\<lparr>Sets := [''a.b=2'', ''c=3'']\<rparr>))"
proof -
  let ?cu = "(blank_cloud_tool ())\<lparr>Sets := [''c=3'', ''zz'', ''a.b=2'', ''a.b=1'']\<rparr>"
  let ?cv = "(blank_cloud_tool ())\<lparr>Sets := [''c=3'', ''a.b=2'', ''a.b=1'']\<rparr>"
  have app: "appendFlagVals ?cu = [''c=3'', ''zz'', ''a.b=2'', ''a.b=1'']"
    by (simp add: appendFlagVals_def blank_cloud_tool_def)
  have h: "\<not> slip_input (sort (appendFlagVals ?cu))"
    unfolding app by code_simp
  have w: "warnings (sort (appendFlagVals ?cu)) = [''Unsported flags: zz'']"
    unfolding app by code_simp
  have m: "spec_merge (appendFlagVals ?cu) = [''a.b=2'', ''c=3'']"
    unfolding app by code_simp
  have appv: "appendFlagVals ?cv = [''c=3'', ''a.b=2'', ''a.b=1'']"
    by (simp add: appendFlagVals_def blank_cloud_tool_def)
  have g: "mset (appendFlagVals ?cv) = mset [''a.b=1'', ''a.b=2'', ''c=3'']"
    unfolding appv by (simp add: add.commute)
  have "\<exists>out. rebuildFlagVals ?cu = (warnings (sort (appendFlagVals ?cu)), Inr (?cu\<lparr>Sets := out\<rparr>))
          \<and> out = spec_merge (appendFlagVals ?cu)"
    using conjunct1[OF rebuildFlagVals_merges[of ?cu]] h by fast
  then have "rebuildFlagVals ?cu = ([''Unsported flags: zz''], Inr (?cu\<lparr>Sets := [''a.b=2'', ''c=3'']\<rparr>))"
    unfolding w m by fast
  then have r1: "rebuildFlagVals ?cu = ([''Unsported flags: zz''], Inr ((blank_cloud_tool ())\<lparr>Sets := [''a.b=2'', ''c=3'']\<rparr>))"
    by simp
  have "rebuildFlagVals ?cv = ([], Inr (?cv\<lparr>Sets := [''a.b=2'', ''c=3'']\<rparr>))"
    using conjunct2[OF rebuildFlagVals_merges[of ?cv]] g by (rule mp)
  then have r2: "rebuildFlagVals ?cv = ([], Inr ((blank_cloud_tool ())\<lparr>Sets := [''a.b=2'', ''c=3'']\<rparr>))"
    by simp
  show ?thesis by (intro conjI) (rule h r1 g r2)+
qed

text \<open>
  C2 as stated fails: the result is in the order of the whole expressions, which is not
  the order of the paths. For the overrides \<open>a=2\<close> and \<open>a.b=1\<close> the result is
  \<open>a.b=1\<close>, \<open>a=2\<close>, since \<open>.\<close> is smaller than \<open>=\<close>, and its paths \<open>a.b\<close>, \<open>a\<close> are
  not in order.
\<close>

theorem rebuildFlagVals_not_path_sorted:
  "rebuildFlagVals ((blank_cloud_tool ())\<lparr>Sets := [''a=2'', ''a.b=1'']\<rparr>)
     = ([], Inr ((blank_cloud_tool ())\<lparr>Sets := [''a.b=1'', ''a=2'']\<rparr>))
   \<and> map path_of [''a.b=1'', ''a=2''] = [''a.b'', ''a'']
   \<and> \<not> sorted [''a.b'', ''a'']"
proof -
  have "appendFlagVals ((blank_cloud_tool ())\<lparr>Sets := [''a=2'', ''a.b=1'']\<rparr>) = [''a=2'', ''a.b=1'']"
    by (simp add: appendFlagVals_def blank_cloud_tool_def)
  moreover have "dedupLoop 0 [] [] [] (sort [''a=2'', ''a.b=1'']) = ([], Inr [''a.b=1'', ''a=2''])"
    by code_simp
  moreover have "map path_of [''a.b=1'', ''a=2''] = [''a.b'', ''a'']" by code_simp
  moreover have "\<not> sorted [''a.b'', ''a'']" by code_simp
  ultimately show ?thesis by (simp add: rebuildFlagVals_def)
qed

text \<open>The input shape left out above: after a dropped expression, a first kept
  expression with the empty path makes the loop write to \<open>sets[-1]\<close>.\<close>

lemma rebuildFlagVals_empty_path_panics:
  "rebuildFlagVals ((blank_cloud_tool ())\<lparr>Sets := [''=x'', ''1'']\<rparr>)
     = ([''Unsported flags: 1''], Inl (Panic ''index out of range [-1]''))"
proof -
  have "appendFlagVals ((blank_cloud_tool ())\<lparr>Sets := [''=x'', ''1'']\<rparr>) = [''=x'', ''1'']"
    by (simp add: appendFlagVals_def blank_cloud_tool_def)
  moreover have "dedupLoop 0 [] [] [] (sort [''=x'', ''1''])
       = ([''Unsported flags: 1''], Inl (Panic ''index out of range [-1]''))"
    by code_simp
  ultimately show ?thesis by (simp add: rebuildFlagVals_def)
qed

section \<open>The deployment protocol\<close>

text \<open>
  C1 (as amended). If the initialisation of the backend configuration fails, its error is
  returned and nothing reaches the backend. Otherwise the first call is the upgrade of the
  component. If the upgrade succeeds, it is the only call. If its error is exactly the
  message of "no deployed releases" for the component name, install is called once, with
  the same chart and value tree, the same wait and timeout, \<open>CreateNamespace\<close> set and the
  component name as release name, and the outcome of the install is returned. Any other
  upgrade error is returned after the upgrade alone.
\<close>

theorem RunHelmInstall_protocol:
  "(\<forall>msg. cfg_Init be (KubeConfig cu) (Namespace cu) = Some msg \<longrightarrow>
       RunHelmInstall be cu r = ([], Inl (Err msg)))
   \<and> (cfg_Init be (KubeConfig cu) (Namespace cu) = None \<longrightarrow>
       (let name = componentName r;
            upgrade = Upgrade_call (newUpgrade cu) name (chart r) (profileValsMap r);
            install = Install_call (newInstall cu name) (chart r) (profileValsMap r);
            upgradeErr = Upgrade_Run be (newUpgrade cu) name (chart r) (profileValsMap r);
            installErr = Install_Run be (newInstall cu name) (chart r) (profileValsMap r)
        in (upgradeErr = None \<longrightarrow> RunHelmInstall be cu r = ([upgrade], Inr ()))
         \<and> (upgradeErr = Some (NewErrNoDeployedReleases be name) \<longrightarrow>
              RunHelmInstall be cu r =
                ([upgrade, install], case installErr of None \<Rightarrow> Inr () | Some e \<Rightarrow> Inl (Err e)))
         \<and> (\<forall>e. upgradeErr = Some e \<and> e \<noteq> NewErrNoDeployedReleases be name \<longrightarrow>
              RunHelmInstall be cu r = ([upgrade], Inl (Err e)))
         \<and> in_CreateNamespace (newInstall cu name) \<and> in_ReleaseName (newInstall cu name) = name
         \<and> in_Wait (newInstall cu name) = up_Wait (newUpgrade cu)
         \<and> in_Timeout (newInstall cu name) = up_Timeout (newUpgrade cu)))"
  by (auto simp: RunHelmInstall_def Let_def newInstall_def newUpgrade_def DefaultHelmCreateNs_def
           split: option.splits)

text \<open>
  The theorem on a backend with no release deployed: upgrade, then install.
\<close>

theorem RunHelmInstall_protocol_witness:
  "cfg_Init example_backend (KubeConfig (blank_cloud_tool ())) (Namespace (blank_cloud_tool ())) = None
   \<and> Upgrade_Run example_backend (newUpgrade (blank_cloud_tool ())) ''cloudcore'' () [''a=1'']
       = Some (NewErrNoDeployedReleases example_backend ''cloudcore'')
   \<and> RunHelmInstall example_backend (blank_cloud_tool ()) example_renderer
       = ([Upgrade_call (newUpgrade (blank_cloud_tool ())) ''cloudcore'' () [''a=1''],
           Install_call (newInstall (blank_cloud_tool ()) ''cloudcore'') () [''a=1'']], Inr ())"
proof -
  have i: "cfg_Init example_backend (KubeConfig (blank_cloud_tool ())) (Namespace (blank_cloud_tool ())) = None"
    by (simp add: example_backend_def)
  have u: "Upgrade_Run example_backend (newUpgrade (blank_cloud_tool ())) ''cloudcore'' () [''a=1'']
       = Some (NewErrNoDeployedReleases example_backend ''cloudcore'')"
    by (simp add: example_backend_def)
  have n: "Install_Run example_backend (newInstall (blank_cloud_tool ()) ''cloudcore'') () [''a=1''] = None"
    by (simp add: example_backend_def)
  have r: "componentName example_renderer = ''cloudcore''" "chart example_renderer = ()"
    "profileValsMap example_renderer = [''a=1'']"
    by (simp_all add: example_renderer_def)
  show ?thesis
    using RunHelmInstall_protocol[of example_backend "blank_cloud_tool ()" example_renderer] i u n
    by (simp add: Let_def r)
qed

text \<open>
  C1 as stated fails: when \<open>cfg.Init\<close> fails, the error is returned and no upgrade is
  attempted.
\<close>

theorem RunHelmInstall_no_upgrade_when_init_fails:
  "RunHelmInstall unreachable_backend (blank_cloud_tool ()) example_renderer
     = ([], Inl (Err ''Kubernetes cluster unreachable''))"
  by (simp add: RunHelmInstall_def unreachable_backend_def)

section \<open>Profiles\<close>

lemma TrimPrefix_v:
  "strings_TrimPrefix s ''v'' = (case s of [] \<Rightarrow> [] | c # cs \<Rightarrow> if c = CHR ''v'' then cs else s)"
  by (cases s) (auto simp: strings_TrimPrefix_def)

lemma TrimPrefix_v_changes: "s \<noteq> strings_TrimPrefix s ''v'' \<longleftrightarrow> (\<exists>suffix. s = CHR ''v'' # suffix)"
  by (cases s) (auto simp: TrimPrefix_v)

text \<open>
  C4. For the profile key \<open>version\<close>: a value \<open>v\<close> followed by a suffix has the suffix
  parsed by \<open>semver.Make\<close>; a parse error is returned; a version below the minimum gives
  the error "the given version ... is not supported"; otherwise exactly two expressions
  are appended, setting \<open>cloudCore.image.tag\<close> and \<open>iptablesManager.image.tag\<close> to
  \<open>v\<close> and the suffix, which is the value itself. A value that does not start with \<open>v\<close>
  is appended to both tags as it is, and the semver library is not consulted.
\<close>

theorem handleProfile_version:
  assumes "ProfileKey cu = VersionProfileKey"
  shows "(\<forall>suffix. v = CHR ''v'' # suffix \<longrightarrow>
            (case semver_Make sem suffix of
               Inl msg \<Rightarrow> handleProfile sem env cu v = Inl (Err msg)
             | Inr version \<Rightarrow>
                 if semver_LT sem version (minVersion sem env) then
                   handleProfile sem env cu v =
                     Inl (Err (''the given version '' @ v
                       @ '' is not supported, you can try binary deployments with this version''))
                 else
                   handleProfile sem env cu v =
                     Inr (cu\<lparr>Sets := Sets cu
                       @ [''cloudCore.image.tag='' @ v, ''iptablesManager.image.tag='' @ v]\<rparr>)))
       \<and> ((\<forall>suffix. v \<noteq> CHR ''v'' # suffix) \<longrightarrow>
            handleProfile sem env cu v =
              Inr (cu\<lparr>Sets := Sets cu
                @ [''cloudCore.image.tag='' @ v, ''iptablesManager.image.tag='' @ v]\<rparr>))"
proof (intro conjI allI impI)
  fix suffix assume v: "v = CHR ''v'' # suffix"
  then have t: "strings_TrimPrefix v ''v'' = suffix" "v \<noteq> suffix"
    by (auto simp: TrimPrefix_v)
  show "case semver_Make sem suffix of
               Inl msg \<Rightarrow> handleProfile sem env cu v = Inl (Err msg)
             | Inr version \<Rightarrow>
                 if semver_LT sem version (minVersion sem env) then
                   handleProfile sem env cu v =
                     Inl (Err (''the given version '' @ v
                       @ '' is not supported, you can try binary deployments with this version''))
                 else
                   handleProfile sem env cu v =
                     Inr (cu\<lparr>Sets := Sets cu
                       @ [''cloudCore.image.tag='' @ v, ''iptablesManager.image.tag='' @ v]\<rparr>)"
    using assms t by (simp add: handleProfile_def Let_def v split: sum.splits)
next
  assume "\<forall>suffix. v \<noteq> CHR ''v'' # suffix"
  then have "\<not> v \<noteq> strings_TrimPrefix v ''v''"
    unfolding TrimPrefix_v_changes by simp
  then show "handleProfile sem env cu v =
              Inr (cu\<lparr>Sets := Sets cu
                @ [''cloudCore.image.tag='' @ v, ''iptablesManager.image.tag='' @ v]\<rparr>)"
    using assms by (simp add: handleProfile_def Let_def)
qed

lemma plain_Make_examples:
  "plain_Make ''1.5.0'' = Inr (1, 5, 0)" "plain_Make ''1.0.0'' = Inr (1, 0, 0)"
  "plain_Make ''1.3.0'' = Inr (1, 3, 0)"
  by code_simp+

lemma example_minVersion: "minVersion plain_semver example_profile_env = (1, 3, 0)"
  by (simp add: minVersion_def plain_semver_def example_profile_env_def TrimPrefix_v plain_Make_examples)

text \<open>
  The examples of the specification, with the minimum \<open>v1.3.0\<close>: \<open>v1.5.0\<close> is accepted,
  \<open>v1.0.0\<close> is refused, \<open>1.0.0\<close> without the \<open>v\<close> is taken as it is.
\<close>

theorem handleProfile_version_witness:
  "ProfileKey ((blank_cloud_tool (0::nat, 0::nat, 0::nat))\<lparr>ProfileKey := ''version''\<rparr>) = VersionProfileKey
   \<and> handleProfile plain_semver example_profile_env
        ((blank_cloud_tool (0, 0, 0))\<lparr>ProfileKey := ''version''\<rparr>) ''v1.5.0''
       = Inr ((blank_cloud_tool (0, 0, 0))\<lparr>ProfileKey := ''version'',
                Sets := [''cloudCore.image.tag=v1.5.0'', ''iptablesManager.image.tag=v1.5.0'']\<rparr>)
   \<and> handleProfile plain_semver example_profile_env
        ((blank_cloud_tool (0, 0, 0))\<lparr>ProfileKey := ''version''\<rparr>) ''v1.0.0''
       = Inl (Err ''the given version v1.0.0 is not supported, you can try binary deployments with this version'')
   \<and> handleProfile plain_semver example_profile_env
        ((blank_cloud_tool (0, 0, 0))\<lparr>ProfileKey := ''version''\<rparr>) ''1.0.0''
       = Inr ((blank_cloud_tool (0, 0, 0))\<lparr>ProfileKey := ''version'',
                Sets := [''cloudCore.image.tag=1.0.0'', ''iptablesManager.image.tag=1.0.0'']\<rparr>)"
proof -
  let ?cu = "(blank_cloud_tool (0::nat, 0::nat, 0::nat))\<lparr>ProfileKey := ''version''\<rparr>"
  have k: "ProfileKey ?cu = VersionProfileKey"
    by (simp add: VersionProfileKey_def)
  have s: "Sets ?cu = []" by (simp add: blank_cloud_tool_def)
  have m: "semver_Make plain_semver = plain_Make" "semver_LT plain_semver = plain_LT"
    by (simp_all add: plain_semver_def)
  have lt: "plain_LT (1, 0, 0) (1, 3, 0)" "\<not> plain_LT (1, 5, 0) (1, 3, 0)"
    by (simp_all add: plain_LT_def)
  note T = handleProfile_version[OF k, of _ plain_semver example_profile_env]
  have a: "handleProfile plain_semver example_profile_env ?cu ''v1.5.0''
       = Inr (?cu\<lparr>Sets := [''cloudCore.image.tag=v1.5.0'', ''iptablesManager.image.tag=v1.5.0'']\<rparr>)"
    using conjunct1[OF T[of "''v1.5.0''"], rule_format, of "''1.5.0''"]
    by (simp add: m plain_Make_examples example_minVersion plain_LT_def s)
  have b: "handleProfile plain_semver example_profile_env ?cu ''v1.0.0''
       = Inl (Err ''the given version v1.0.0 is not supported, you can try binary deployments with this version'')"
    using conjunct1[OF T[of "''v1.0.0''"], rule_format, of "''1.0.0''"]
    by (simp add: m plain_Make_examples example_minVersion plain_LT_def s)
  have c: "handleProfile plain_semver example_profile_env ?cu ''1.0.0''
       = Inr (?cu\<lparr>Sets := [''cloudCore.image.tag=1.0.0'', ''iptablesManager.image.tag=1.0.0'']\<rparr>)"
    using conjunct2[OF T[of "''1.0.0''"]]
    by (simp add: s)
  show ?thesis using k a b c by simp
qed

lemma Split_one: "c \<notin> set s \<Longrightarrow> strings_Split s c = [s]"
  by (induction s) auto

lemma Split_key_value:
  "c \<notin> set key \<Longrightarrow> strings_Split (key @ c # rest) c = key # strings_Split rest c"
  by (induction key) auto

text \<open>
  For the key \<open>iptablesMgrMode\<close>, a value outside the two modes leaves the tool as it
  is: no expression for \<open>iptablesManager.mode\<close> is appended.
\<close>

lemma handleProfile_other_mode:
  assumes "ProfileKey cu = IptablesMgrProfileKey"
    and "v \<noteq> InternalIptablesMgrMode" "v \<noteq> ExternalIptablesMgrMode"
  shows "handleProfile sem env cu v = Inr cu"
  using assms
  by (simp add: handleProfile_def IptablesMgrProfileKey_def VersionProfileKey_def)

lemma rebuildFlagVals_blank:
  "rebuildFlagVals ((blank_cloud_tool v)\<lparr>Profile := p, ProfileKey := k\<rparr>)
     = ([], Inr ((blank_cloud_tool v)\<lparr>Profile := p, ProfileKey := k, Sets := []\<rparr>))"
  by (simp add: rebuildFlagVals_def appendFlagVals_def blank_cloud_tool_def)

text \<open>
  C5. The code at \<open>iptablesMgrMode=bogus\<close>: resolution succeeds, and \<open>Sets\<close> stays empty,
  so nothing sets the mode to \<open>external\<close>; with \<open>iptablesMgrMode=external\<close> the expression
  \<open>iptablesManager.mode=external\<close> is there.
\<close>

theorem BeforeRenderer_bogus_mode_not_coerced:
  "BeforeRenderer plain_semver example_profile_env
      ((blank_cloud_tool (0, 0, 0))\<lparr>Profile := ''iptablesMgrMode=bogus''\<rparr>)
     = ([], Inr ((blank_cloud_tool (0, 0, 0))
              \<lparr>Profile := ''iptablesMgrMode=bogus'', ProfileKey := ''iptablesMgrMode'', Sets := []\<rparr>))
   \<and> BeforeRenderer plain_semver example_profile_env
      ((blank_cloud_tool (0, 0, 0))\<lparr>Profile := ''iptablesMgrMode=external''\<rparr>)
     = ([], Inr ((blank_cloud_tool (0, 0, 0))
              \<lparr>Profile := ''iptablesMgrMode=external'', ProfileKey := ''iptablesMgrMode'',
                Sets := [''iptablesManager.mode=external'']\<rparr>))"
proof -
  let ?b = "blank_cloud_tool (0::nat, 0::nat, 0::nat)"
  have sp: "strings_Split ''iptablesMgrMode=bogus'' CHR ''='' = [''iptablesMgrMode'', ''bogus'']"
    "strings_Split ''iptablesMgrMode=external'' CHR ''='' = [''iptablesMgrMode'', ''external'']"
    by code_simp+
  have ck: "checkProfile example_profile_env (?b\<lparr>Profile := p, ProfileKey := ''iptablesMgrMode''\<rparr>) = Inr ()" for p
    by (simp add: checkProfile_def example_profile_env_def)
  have h1: "handleProfile plain_semver example_profile_env
              (?b\<lparr>Profile := p, ProfileKey := ''iptablesMgrMode''\<rparr>) ''bogus''
            = Inr (?b\<lparr>Profile := p, ProfileKey := ''iptablesMgrMode''\<rparr>)" for p
    by (rule handleProfile_other_mode)
       (simp_all add: IptablesMgrProfileKey_def InternalIptablesMgrMode_def ExternalIptablesMgrMode_def)
  have h2: "handleProfile plain_semver example_profile_env
              (?b\<lparr>Profile := p, ProfileKey := ''iptablesMgrMode''\<rparr>) ''external''
            = Inr (?b\<lparr>Profile := p, ProfileKey := ''iptablesMgrMode'',
                     Sets := [''iptablesManager.mode=external'']\<rparr>)" for p
    by (simp add: handleProfile_def IptablesMgrProfileKey_def VersionProfileKey_def
          InternalIptablesMgrMode_def ExternalIptablesMgrMode_def blank_cloud_tool_def)
  have r2: "rebuildFlagVals (?b\<lparr>Profile := p, ProfileKey := k, Sets := [''iptablesManager.mode=external'']\<rparr>)
     = ([], Inr (?b\<lparr>Profile := p, ProfileKey := k, Sets := [''iptablesManager.mode=external'']\<rparr>))" for p k
  proof -
    have "dedupLoop 0 [] [] [] (sort [''iptablesManager.mode=external''])
            = ([], Inr [''iptablesManager.mode=external''])"
      by code_simp
    then show ?thesis
      by (simp add: rebuildFlagVals_def appendFlagVals_def blank_cloud_tool_def)
  qed
  have p: "Profile (?b\<lparr>Profile := q\<rparr>) = q" for q by simp
  show ?thesis
    unfolding BeforeRenderer_def Let_def p
    by (simp add: sp ck h1 h2 r2 rebuildFlagVals_blank)
qed

lemma Split_eq_short: "length (strings_Split s CHR ''='') < 2 \<longleftrightarrow> CHR ''='' \<notin> set s"
  by (rule Split_short)

text \<open>
  C7 (as amended). A profile that is not empty and has no \<open>=\<close> fails with
  "invalid profile". An empty profile is replaced by \<open>version=\<close> and the minimum
  version before anything is checked. For a profile with \<open>=\<close> whose key is not valid in
  the store, \<open>checkProfile\<close> fails with "unsupported profile", and \<open>BeforeRenderer\<close>
  returns "invalid profile" in its place.
\<close>

theorem BeforeRenderer_invalid_profile:
  "(Profile cu \<noteq> [] \<and> CHR ''='' \<notin> set (Profile cu) \<longrightarrow>
      BeforeRenderer sem env cu = ([], Inl (Err (''invalid profile '' @ Profile cu))))
   \<and> (Profile cu = [] \<longrightarrow>
      BeforeRenderer sem env cu =
        BeforeRenderer sem env (cu\<lparr>Profile := VersionProfileKey @ ''='' @ HelmSupportedMinVersion env\<rparr>))
   \<and> (\<forall>valid. Profile cu \<noteq> [] \<and> CHR ''='' \<in> set (Profile cu)
         \<and> readProfiles env = Inr valid \<and> \<not> valid (path_of (Profile cu)) \<longrightarrow>
      checkProfile env (cu\<lparr>ProfileKey := path_of (Profile cu)\<rparr>)
        = Inl (Err (Errorf_no_operands (missing_operands env) (''unsupported profile '' @ Profile cu)))
      \<and> (CHR ''%'' \<notin> set (Profile cu) \<longrightarrow>
           checkProfile env (cu\<lparr>ProfileKey := path_of (Profile cu)\<rparr>)
             = Inl (Err (''unsupported profile '' @ Profile cu)))
      \<and> BeforeRenderer sem env cu = ([], Inl (Err (''invalid profile '' @ Profile cu))))"
proof (intro conjI allI impI)
  assume "Profile cu \<noteq> [] \<and> CHR ''='' \<notin> set (Profile cu)"
  then show "BeforeRenderer sem env cu = ([], Inl (Err (''invalid profile '' @ Profile cu)))"
    by (simp add: BeforeRenderer_def Let_def Split_short)
next
  assume "Profile cu = []"
  then show "BeforeRenderer sem env cu =
        BeforeRenderer sem env (cu\<lparr>Profile := VersionProfileKey @ ''='' @ HelmSupportedMinVersion env\<rparr>)"
    by (simp add: BeforeRenderer_def Let_def VersionProfileKey_def)
next
  fix valid
  assume a: "Profile cu \<noteq> [] \<and> CHR ''='' \<in> set (Profile cu)
         \<and> readProfiles env = Inr valid \<and> \<not> valid (path_of (Profile cu))"
  then show ck: "checkProfile env (cu\<lparr>ProfileKey := path_of (Profile cu)\<rparr>)
        = Inl (Err (Errorf_no_operands (missing_operands env) (''unsupported profile '' @ Profile cu)))"
    by (simp add: checkProfile_def)
  have "CHR ''%'' \<notin> set ''unsupported profile ''" by simp
  then show "CHR ''%'' \<notin> set (Profile cu) \<Longrightarrow>
           checkProfile env (cu\<lparr>ProfileKey := path_of (Profile cu)\<rparr>)
             = Inl (Err (''unsupported profile '' @ Profile cu))"
    unfolding ck by (simp add: Errorf_no_operands_def)
  have "strings_Split (Profile cu) CHR ''='' ! 0 = path_of (Profile cu)"
    by (simp add: Split_hd path_of_def)
  with a ck show "BeforeRenderer sem env cu = ([], Inl (Err (''invalid profile '' @ Profile cu)))"
    by (simp add: BeforeRenderer_def Let_def Split_short)
qed

text \<open>
  The theorem at the profiles \<open>version\<close> (no \<open>=\<close>) and \<open>edgemesh=on\<close> (a key the example
  store does not have).
\<close>

theorem BeforeRenderer_invalid_profile_witness:
  "BeforeRenderer plain_semver example_profile_env ((blank_cloud_tool (0, 0, 0))\<lparr>Profile := ''version''\<rparr>)
      = ([], Inl (Err ''invalid profile version''))
   \<and> checkProfile example_profile_env
        ((blank_cloud_tool (0::nat, 0::nat, 0::nat))\<lparr>Profile := ''edgemesh=on'', ProfileKey := ''edgemesh''\<rparr>)
      = Inl (Err ''unsupported profile edgemesh=on'')
   \<and> BeforeRenderer plain_semver example_profile_env ((blank_cloud_tool (0, 0, 0))\<lparr>Profile := ''edgemesh=on''\<rparr>)
      = ([], Inl (Err ''invalid profile edgemesh=on''))"
proof -
  let ?b = "blank_cloud_tool (0::nat, 0::nat, 0::nat)"
  note T = BeforeRenderer_invalid_profile[of _ plain_semver example_profile_env]
  have 1: "BeforeRenderer plain_semver example_profile_env (?b\<lparr>Profile := ''version''\<rparr>)
             = ([], Inl (Err ''invalid profile version''))"
    using conjunct1[OF T[of "?b\<lparr>Profile := ''version''\<rparr>"]] by simp
  have p: "path_of ''edgemesh=on'' = ''edgemesh''" by code_simp
  have r: "readProfiles example_profile_env = Inr (\<lambda>k. k = ''version'' \<or> k = ''iptablesMgrMode'')"
    by (simp add: example_profile_env_def)
  have 2: "checkProfile example_profile_env (?b\<lparr>Profile := ''edgemesh=on'', ProfileKey := ''edgemesh''\<rparr>)
           = Inl (Err ''unsupported profile edgemesh=on'')
        \<and> BeforeRenderer plain_semver example_profile_env (?b\<lparr>Profile := ''edgemesh=on''\<rparr>)
           = ([], Inl (Err ''invalid profile edgemesh=on''))"
    using conjunct2[OF conjunct2[OF T[of "?b\<lparr>Profile := ''edgemesh=on''\<rparr>"]], rule_format,
            of "\<lambda>k. k = ''version'' \<or> k = ''iptablesMgrMode''"] r
    by (simp add: p Errorf_no_operands_def)
  show ?thesis by (rule conjI[OF 1 2])
qed

lemma rebuildFlagVals_version_1_3_0:
  "rebuildFlagVals ((blank_cloud_tool v)\<lparr>Profile := p, ProfileKey := k,
       Sets := [''cloudCore.image.tag=v1.3.0'', ''iptablesManager.image.tag=v1.3.0'']\<rparr>)
     = ([], Inr ((blank_cloud_tool v)\<lparr>Profile := p, ProfileKey := k,
       Sets := [''cloudCore.image.tag=v1.3.0'', ''iptablesManager.image.tag=v1.3.0'']\<rparr>))"
proof -
  have "dedupLoop 0 [] [] [] (sort [''cloudCore.image.tag=v1.3.0'', ''iptablesManager.image.tag=v1.3.0''])
          = ([], Inr [''cloudCore.image.tag=v1.3.0'', ''iptablesManager.image.tag=v1.3.0''])"
    by code_simp
  then show ?thesis
    by (simp add: rebuildFlagVals_def appendFlagVals_def blank_cloud_tool_def)
qed

text \<open>
  C7 as stated fails: the empty profile does not split into two parts, and resolution
  succeeds on it, with the default \<open>version=v1.3.0\<close>.
\<close>

theorem BeforeRenderer_empty_profile_accepted:
  "length (strings_Split [] CHR ''='') < 2
   \<and> BeforeRenderer plain_semver example_profile_env ((blank_cloud_tool (0, 0, 0))\<lparr>Profile := []\<rparr>)
      = ([], Inr ((blank_cloud_tool (0, 0, 0))\<lparr>Profile := ''version=v1.3.0'', ProfileKey := ''version'',
           Sets := [''cloudCore.image.tag=v1.3.0'', ''iptablesManager.image.tag=v1.3.0'']\<rparr>))"
proof -
  let ?b = "blank_cloud_tool (0::nat, 0::nat, 0::nat)"
  have sp: "strings_Split ''version=v1.3.0'' CHR ''='' = [''version'', ''v1.3.0'']"
    by code_simp
  have ck: "checkProfile example_profile_env (?b\<lparr>Profile := p, ProfileKey := ''version''\<rparr>) = Inr ()" for p
    by (simp add: checkProfile_def example_profile_env_def)
  have hp: "handleProfile plain_semver example_profile_env (?b\<lparr>Profile := p, ProfileKey := ''version''\<rparr>) ''v1.3.0''
        = Inr (?b\<lparr>Profile := p, ProfileKey := ''version'',
             Sets := [''cloudCore.image.tag=v1.3.0'', ''iptablesManager.image.tag=v1.3.0'']\<rparr>)" for p
    by (simp add: handleProfile_def Let_def VersionProfileKey_def TrimPrefix_v plain_semver_def
          plain_Make_examples example_minVersion[unfolded plain_semver_def] plain_LT_def blank_cloud_tool_def)
  have m: "HelmSupportedMinVersion example_profile_env = ''v1.3.0''"
    by (simp add: example_profile_env_def)
  show ?thesis
    unfolding BeforeRenderer_def Let_def
    by (simp add: VersionProfileKey_def m sp ck hp rebuildFlagVals_version_1_3_0)
qed

lemma handleProfile_key:
  "handleProfile sem env cu v = Inr cu' \<Longrightarrow> ProfileKey cu' = ProfileKey cu"
  by (auto simp: handleProfile_def Let_def split: if_splits sum.splits)

lemma handleProfile_accepts:
  assumes "ProfileKey cu = VersionProfileKey \<longrightarrow>
             (\<forall>suffix. v = CHR ''v'' # suffix \<longrightarrow>
                (\<exists>ver. semver_Make sem suffix = Inr ver \<and> \<not> semver_LT sem ver (minVersion sem env)))"
  shows "\<exists>cu'. handleProfile sem env cu v = Inr cu'"
proof (cases "ProfileKey cu = VersionProfileKey")
  case True
  show ?thesis
  proof (cases "v \<noteq> strings_TrimPrefix v ''v''")
    case changed: True
    then obtain suffix where v: "v = CHR ''v'' # suffix"
      unfolding TrimPrefix_v_changes by blast
    with assms True obtain ver where "semver_Make sem suffix = Inr ver"
      "\<not> semver_LT sem ver (minVersion sem env)" by blast
    then show ?thesis using True v
      by (simp add: handleProfile_def Let_def TrimPrefix_v)
  next
    case False
    then show ?thesis using True by (simp add: handleProfile_def Let_def)
  qed
next
  case False
  then show ?thesis by (simp add: handleProfile_def)
qed

lemma parseSets_some:
  "\<forall>v\<in>set vs. \<forall>m. \<exists>m'. strvals_ParseInto env v m = Inr m' \<Longrightarrow>
     \<exists>tree. parseSets env vs (Some t) = Inr (Some tree)"
proof (induction vs arbitrary: t)
  case Nil
  then show ?case by simp
next
  case (Cons v vs)
  have "\<exists>t'. strvals_ParseInto env v t = Inr t'" using Cons.prems by simp
  then obtain t' where "strvals_ParseInto env v t = Inr t'" ..
  moreover have "\<exists>tree. parseSets env vs (Some t') = Inr (Some tree)"
    using Cons.prems by (intro Cons.IH) simp
  ultimately show ?case by simp
qed

lemma parseSets_keeps_map: "parseSets env vs (Some t) = Inr r \<Longrightarrow> r \<noteq> None"
  by (induction vs arbitrary: t) (auto split: sum.splits)

text \<open>
  C8 (as amended). Take a profile \<open>key=value\<close> with one \<open>=\<close> whose key is valid in the
  store, whose value, when the key is \<open>version\<close> and the value starts with \<open>v\<close>, parses to
  a version not below the minimum, and whose overrides, once \<open>handleProfile\<close> has added
  its own, are not of the one shape on which \<open>rebuildFlagVals\<close> writes out of range. Then
  \<open>handleProfile\<close> accepts the value and \<open>BeforeRenderer\<close> returns no error: it returns
  the tool with the key stored and the merged overrides. On that tool, when the values of
  the key load and unmarshal to a map that is not nil, \<open>combineProfVals\<close> never returns a
  nil map without an error, and it returns a map that is not nil and no error when every
  merged override parses.
\<close>

theorem BeforeRenderer_known_key:
  assumes "Profile cu = key @ ''='' @ val"
    and "CHR ''='' \<notin> set key" and "CHR ''='' \<notin> set val"
    and "readProfiles env = Inr valid" and "valid key"
    and "key = VersionProfileKey \<longrightarrow>
           (\<forall>suffix. val = CHR ''v'' # suffix \<longrightarrow>
              (\<exists>ver. semver_Make sem suffix = Inr ver \<and> \<not> semver_LT sem ver (minVersion sem env)))"
    and "\<forall>cu1. handleProfile sem env (cu\<lparr>ProfileKey := key\<rparr>) val = Inr cu1 \<longrightarrow>
           \<not> slip_input (sort (appendFlagVals cu1))"
  shows "\<exists>cu1 cu'. handleProfile sem env (cu\<lparr>ProfileKey := key\<rparr>) val = Inr cu1
           \<and> cu' = cu1\<lparr>Sets := spec_merge (appendFlagVals cu1)\<rparr>
           \<and> BeforeRenderer sem env cu = (warnings (sort (appendFlagVals cu1)), Inr cu')
           \<and> ProfileKey cu' = key
           \<and> (\<forall>y t r. LoadValues env key = Inr y \<and> yaml_Unmarshal env y (new_map env) = Inr (Some t)
                    \<and> combineProfVals env cu' = Inr r
                  \<longrightarrow> r \<noteq> None)
           \<and> (\<forall>y t. LoadValues env key = Inr y \<and> yaml_Unmarshal env y (new_map env) = Inr (Some t)
                    \<and> (\<forall>v\<in>set (Sets cu'). \<forall>m. \<exists>m'. strvals_ParseInto env v m = Inr m')
                  \<longrightarrow> (\<exists>tree. combineProfVals env cu' = Inr (Some tree)))"
proof -
  let ?cu = "cu\<lparr>ProfileKey := key\<rparr>"
  have sp: "strings_Split (Profile cu) CHR ''='' = [key, val]"
    using assms(1-3) by (simp add: Split_key_value Split_one)
  have ne: "Profile cu \<noteq> []" using assms(1) by simp
  have ck: "checkProfile env ?cu = Inr ()"
    using assms(4,5) by (simp add: checkProfile_def)
  from handleProfile_accepts[of ?cu val sem env] assms(6)
  obtain cu1 where h: "handleProfile sem env ?cu val = Inr cu1" by auto
  then have k1: "ProfileKey cu1 = key" using handleProfile_key by fastforce
  have noslip: "\<not> slip_input (sort (appendFlagVals cu1))"
    using assms(7) h by blast
  let ?cu' = "cu1\<lparr>Sets := spec_merge (appendFlagVals cu1)\<rparr>"
  have "BeforeRenderer sem env cu = rebuildFlagVals cu1"
    using ne by (simp add: BeforeRenderer_def Let_def sp ck h)
  then have br: "BeforeRenderer sem env cu = (warnings (sort (appendFlagVals cu1)), Inr ?cu')"
    using noslip by (simp add: rebuildFlagVals_eq)
  have k': "ProfileKey ?cu' = key" using k1 by simp
  have nonnil: "r \<noteq> None"
    if "LoadValues env key = Inr y \<and> yaml_Unmarshal env y (new_map env) = Inr (Some t)
          \<and> combineProfVals env ?cu' = Inr r" for y t r
  proof -
    from that have l: "LoadValues env key = Inr y"
      and u: "yaml_Unmarshal env y (new_map env) = Inr (Some t)"
      and c: "combineProfVals env ?cu' = Inr r" by blast+
    from c have "parseSets env (Sets ?cu') (Some t) = Inr r"
      by (simp add: combineProfVals_def k1 l u)
    then show ?thesis by (rule parseSets_keeps_map)
  qed
  have tree: "\<exists>tree. combineProfVals env ?cu' = Inr (Some tree)"
    if "LoadValues env key = Inr y \<and> yaml_Unmarshal env y (new_map env) = Inr (Some t)
          \<and> (\<forall>v\<in>set (Sets ?cu'). \<forall>m. \<exists>m'. strvals_ParseInto env v m = Inr m')" for y t
  proof -
    from that have l: "LoadValues env key = Inr y"
      and u: "yaml_Unmarshal env y (new_map env) = Inr (Some t)"
      and p: "\<forall>v\<in>set (Sets ?cu'). \<forall>m. \<exists>m'. strvals_ParseInto env v m = Inr m'" by blast+
    from p have "\<exists>tree. parseSets env (Sets ?cu') (Some t) = Inr (Some tree)"
      by (rule parseSets_some)
    then show ?thesis by (simp add: combineProfVals_def k1 l u)
  qed
  have "handleProfile sem env ?cu val = Inr cu1
           \<and> ?cu' = cu1\<lparr>Sets := spec_merge (appendFlagVals cu1)\<rparr>
           \<and> BeforeRenderer sem env cu = (warnings (sort (appendFlagVals cu1)), Inr ?cu')
           \<and> ProfileKey ?cu' = key
           \<and> (\<forall>y t r. LoadValues env key = Inr y \<and> yaml_Unmarshal env y (new_map env) = Inr (Some t)
                    \<and> combineProfVals env ?cu' = Inr r
                  \<longrightarrow> r \<noteq> None)
           \<and> (\<forall>y t. LoadValues env key = Inr y \<and> yaml_Unmarshal env y (new_map env) = Inr (Some t)
                    \<and> (\<forall>v\<in>set (Sets ?cu'). \<forall>m. \<exists>m'. strvals_ParseInto env v m = Inr m')
                  \<longrightarrow> (\<exists>tree. combineProfVals env ?cu' = Inr (Some tree)))"
    using h br k' nonnil tree by blast
  then show ?thesis by blast
qed

text \<open>
  C8 as stated fails: \<open>version=v1.0.0\<close> is well formed and its key is valid, and
  resolution returns an error, since the version is below the minimum \<open>v1.3.0\<close>.
\<close>

theorem BeforeRenderer_old_version_rejected:
  "BeforeRenderer plain_semver example_profile_env
      ((blank_cloud_tool (0, 0, 0))\<lparr>Profile := ''version=v1.0.0''\<rparr>)
     = ([], Inl (Err ''can not handle profile version=v1.0.0''))"
proof -
  let ?b = "blank_cloud_tool (0::nat, 0::nat, 0::nat)"
  have sp: "strings_Split ''version=v1.0.0'' CHR ''='' = [''version'', ''v1.0.0'']"
    by code_simp
  have ck: "checkProfile example_profile_env (?b\<lparr>Profile := p, ProfileKey := ''version''\<rparr>) = Inr ()" for p
    by (simp add: checkProfile_def example_profile_env_def)
  have hp: "handleProfile plain_semver example_profile_env (?b\<lparr>Profile := p, ProfileKey := ''version''\<rparr>) ''v1.0.0''
        = Inl (Err ''the given version v1.0.0 is not supported, you can try binary deployments with this version'')" for p
    by (simp add: handleProfile_def Let_def VersionProfileKey_def TrimPrefix_v plain_semver_def
          plain_Make_examples example_minVersion[unfolded plain_semver_def] plain_LT_def)
  show ?thesis
    unfolding BeforeRenderer_def Let_def
    by (simp add: sp ck hp)
qed

text \<open>
  The theorem at \<open>version=v1.3.0\<close> with the user's override \<open>a=1\<close>: resolution returns the
  three merged overrides, and the value tree holds them.
\<close>

theorem BeforeRenderer_known_key_witness:
  "BeforeRenderer plain_semver example_profile_env
      ((blank_cloud_tool (0, 0, 0))\<lparr>Profile := ''version=v1.3.0'', Sets := [''a=1'']\<rparr>)
     = ([], Inr ((blank_cloud_tool (0, 0, 0))\<lparr>Profile := ''version=v1.3.0'', ProfileKey := ''version'',
           Sets := [''a=1'', ''cloudCore.image.tag=v1.3.0'', ''iptablesManager.image.tag=v1.3.0'']\<rparr>))
   \<and> (\<exists>tree. combineProfVals example_profile_env
         ((blank_cloud_tool (0::nat, 0::nat, 0::nat))\<lparr>Profile := ''version=v1.3.0'', ProfileKey := ''version'',
           Sets := [''a=1'', ''cloudCore.image.tag=v1.3.0'', ''iptablesManager.image.tag=v1.3.0'']\<rparr>)
         = Inr (Some tree))"
proof -
  let ?b = "blank_cloud_tool (0::nat, 0::nat, 0::nat)"
  let ?cu = "?b\<lparr>Profile := ''version=v1.3.0'', Sets := [''a=1'']\<rparr>"
  let ?cu1 = "?b\<lparr>Profile := ''version=v1.3.0'', ProfileKey := ''version'',
           Sets := [''a=1'', ''cloudCore.image.tag=v1.3.0'', ''iptablesManager.image.tag=v1.3.0'']\<rparr>"
  have hp: "handleProfile plain_semver example_profile_env (?cu\<lparr>ProfileKey := ''version''\<rparr>) ''v1.3.0''
        = Inr ?cu1"
    by (simp add: handleProfile_def Let_def VersionProfileKey_def TrimPrefix_v plain_semver_def
          plain_Make_examples example_minVersion[unfolded plain_semver_def] plain_LT_def blank_cloud_tool_def)
  have app: "appendFlagVals ?cu1
        = [''a=1'', ''cloudCore.image.tag=v1.3.0'', ''iptablesManager.image.tag=v1.3.0'']"
    by (simp add: appendFlagVals_def blank_cloud_tool_def)
  have ns: "\<not> slip_input (sort (appendFlagVals ?cu1))"
    unfolding app by code_simp
  have w: "warnings (sort (appendFlagVals ?cu1)) = []"
    unfolding app by code_simp
  have m: "spec_merge (appendFlagVals ?cu1)
        = [''a=1'', ''cloudCore.image.tag=v1.3.0'', ''iptablesManager.image.tag=v1.3.0'']"
    unfolding app by code_simp
  have a1: "Profile ?cu = ''version'' @ ''='' @ ''v1.3.0''" by simp
  have a2: "CHR ''='' \<notin> set ''version''" "CHR ''='' \<notin> set ''v1.3.0''" by simp_all
  have a4: "readProfiles example_profile_env = Inr (\<lambda>k. k = ''version'' \<or> k = ''iptablesMgrMode'')"
    by (simp add: example_profile_env_def)
  have a5: "(\<lambda>k. k = ''version'' \<or> k = ''iptablesMgrMode'') ''version''" by simp
  have a6: "''version'' = VersionProfileKey \<longrightarrow>
           (\<forall>suffix. ''v1.3.0'' = CHR ''v'' # suffix \<longrightarrow>
              (\<exists>ver. semver_Make plain_semver suffix = Inr ver
                 \<and> \<not> semver_LT plain_semver ver (minVersion plain_semver example_profile_env)))"
    by (simp add: example_minVersion) (simp add: plain_semver_def plain_Make_examples plain_LT_def)
  have a7: "\<forall>cu1. handleProfile plain_semver example_profile_env (?cu\<lparr>ProfileKey := ''version''\<rparr>) ''v1.3.0''
              = Inr cu1 \<longrightarrow> \<not> slip_input (sort (appendFlagVals cu1))"
    unfolding hp using ns by simp
  have ext: "LoadValues example_profile_env ''version'' = Inr []
       \<and> yaml_Unmarshal example_profile_env [] (new_map example_profile_env) = Inr (Some [])
       \<and> (\<forall>v\<in>set (Sets ?cu1). \<forall>m. \<exists>m'. strvals_ParseInto example_profile_env v m = Inr m')"
    by (simp add: example_profile_env_def)
  from BeforeRenderer_known_key[OF a1 a2 a4 a5 a6 a7]
  obtain cu1 cu' where
    h: "handleProfile plain_semver example_profile_env (?cu\<lparr>ProfileKey := ''version''\<rparr>) ''v1.3.0'' = Inr cu1"
    and c: "cu' = cu1\<lparr>Sets := spec_merge (appendFlagVals cu1)\<rparr>"
    and b: "BeforeRenderer plain_semver example_profile_env ?cu = (warnings (sort (appendFlagVals cu1)), Inr cu')"
    and t: "\<forall>y t. LoadValues example_profile_env ''version'' = Inr y
                \<and> yaml_Unmarshal example_profile_env y (new_map example_profile_env) = Inr (Some t)
                \<and> (\<forall>v\<in>set (Sets cu'). \<forall>m. \<exists>m'. strvals_ParseInto example_profile_env v m = Inr m')
              \<longrightarrow> (\<exists>tree. combineProfVals example_profile_env cu' = Inr (Some tree))"
    by blast
  from h have cu1: "cu1 = ?cu1" unfolding hp by simp
  have cu': "cu' = ?cu1" unfolding c cu1 m by simp
  have 1: "BeforeRenderer plain_semver example_profile_env ?cu = ([], Inr ?cu1)"
    using b unfolding cu' cu1 w .
  have 2: "\<exists>tree. combineProfVals example_profile_env ?cu1 = Inr (Some tree)"
    using t[unfolded cu', rule_format, OF ext] .
  from 1 2 show ?thesis by (rule conjI)
qed

text \<open>
  The shape left out above does occur: with the overrides \<open>=x\<close> and \<open>1\<close>, the profile
  \<open>version=v1.3.0\<close> meets every other condition, and \<open>rebuildFlagVals\<close> panics.
\<close>

lemma BeforeRenderer_empty_path_panics:
  "BeforeRenderer plain_semver example_profile_env
      ((blank_cloud_tool (0, 0, 0))\<lparr>Profile := ''version=v1.3.0'', Sets := [''=x'', ''1'']\<rparr>)
     = ([''Unsported flags: 1''], Inl (Panic ''index out of range [-1]''))"
proof -
  let ?b = "blank_cloud_tool (0::nat, 0::nat, 0::nat)"
  let ?cu1 = "?b\<lparr>Profile := ''version=v1.3.0'', ProfileKey := ''version'',
           Sets := [''=x'', ''1'', ''cloudCore.image.tag=v1.3.0'', ''iptablesManager.image.tag=v1.3.0'']\<rparr>"
  have sp: "strings_Split ''version=v1.3.0'' CHR ''='' = [''version'', ''v1.3.0'']"
    by code_simp
  have ck: "checkProfile example_profile_env
              (?b\<lparr>Profile := ''version=v1.3.0'', Sets := [''=x'', ''1''], ProfileKey := ''version''\<rparr>) = Inr ()"
    by (simp add: checkProfile_def example_profile_env_def)
  have hp: "handleProfile plain_semver example_profile_env
              (?b\<lparr>Profile := ''version=v1.3.0'', Sets := [''=x'', ''1''], ProfileKey := ''version''\<rparr>) ''v1.3.0''
        = Inr ?cu1"
    by (simp add: handleProfile_def Let_def VersionProfileKey_def TrimPrefix_v plain_semver_def
          plain_Make_examples example_minVersion[unfolded plain_semver_def] plain_LT_def blank_cloud_tool_def)
  have app: "appendFlagVals ?cu1
        = [''=x'', ''1'', ''cloudCore.image.tag=v1.3.0'', ''iptablesManager.image.tag=v1.3.0'']"
    by (simp add: appendFlagVals_def blank_cloud_tool_def)
  have "dedupLoop 0 [] [] [] (sort (appendFlagVals ?cu1))
          = ([''Unsported flags: 1''], Inl (Panic ''index out of range [-1]''))"
    unfolding app by code_simp
  then have r: "rebuildFlagVals ?cu1 = ([''Unsported flags: 1''], Inl (Panic ''index out of range [-1]''))"
    by (simp add: rebuildFlagVals_def)
  show ?thesis
    unfolding BeforeRenderer_def Let_def
    by (simp add: sp ck hp r)
qed

section \<open>Fetching the latest version\<close>

lemma fetchLoop_bound:
  "fetchLoop env n i ev = (ev', k, l) \<Longrightarrow>
     count_list ev' GetLatestVersion_call \<le> count_list ev GetLatestVersion_call + n"
proof (induction n arbitrary: i ev)
  case 0
  then show ?case by simp
next
  case (Suc n)
  show ?case
  proof (cases "GetLatestVersion env i")
    case (Inl err)
    with Suc.prems Suc.IH[of "Suc i" "ev @ [GetLatestVersion_call,
        Println (''Failed to get the latest KubeEdge release version, error:  '' @ err)]"]
    show ?thesis by simp
  next
    case (Inr version)
    show ?thesis
    proof (cases "version = []")
      case True
      with Inr Suc.prems Suc.IH[of "Suc i" "ev @ [GetLatestVersion_call]"] show ?thesis by simp
    next
      case False
      with Inr Suc.prems show ?thesis by auto
    qed
  qed
qed

lemma fetchLoop_all_fail:
  assumes "\<forall>j. i \<le> j \<and> j < i + n \<longrightarrow> (case GetLatestVersion env j of Inl _ \<Rightarrow> True | Inr v \<Rightarrow> v = [])"
  shows "\<exists>ev'. fetchLoop env n i ev = (ev @ ev', [], []) \<and> count_list ev' GetLatestVersion_call = n"
  using assms
proof (induction n arbitrary: i ev)
  case 0
  then show ?case by simp
next
  case (Suc n)
  have here: "case GetLatestVersion env i of Inl _ \<Rightarrow> True | Inr v \<Rightarrow> v = []"
    using Suc.prems by simp
  have later: "\<forall>j. Suc i \<le> j \<and> j < Suc i + n \<longrightarrow>
      (case GetLatestVersion env j of Inl _ \<Rightarrow> True | Inr v \<Rightarrow> v = [])"
    using Suc.prems by simp
  show ?case
  proof (cases "GetLatestVersion env i")
    case (Inl err)
    let ?ev = "ev @ [GetLatestVersion_call,
        Println (''Failed to get the latest KubeEdge release version, error:  '' @ err)]"
    from Suc.IH[OF later, of ?ev] obtain ev' where
      "fetchLoop env n (Suc i) ?ev = (?ev @ ev', [], [])" "count_list ev' GetLatestVersion_call = n"
      by blast
    then show ?thesis using Inl by simp
  next
    case (Inr version)
    then have "version = []" using here by simp
    let ?ev = "ev @ [GetLatestVersion_call]"
    from Suc.IH[OF later, of ?ev] obtain ev' where
      "fetchLoop env n (Suc i) ?ev = (?ev @ ev', [], [])" "count_list ev' GetLatestVersion_call = n"
      by blast
    then show ?thesis using Inr \<open>version = []\<close> by simp
  qed
qed

text \<open>
  C9. \<open>GetLatestVersion\<close> is called at most \<open>RetryTimes\<close> times. If every attempt fails
  or gives an empty version, it is called exactly \<open>RetryTimes\<close> times, the last thing
  printed is that the default version will be used, and (the default version being a
  semantic version) the function returns no error and stores a tool whose version is the
  default one. Between two attempts the loop does nothing but print the error.
\<close>

theorem version_fetch_falls_back:
  "count_list (fst (AddInitBeta2ToolsList sem env toolList opts)) GetLatestVersion_call \<le> RetryTimes env
   \<and> ((\<forall>i<RetryTimes env. case GetLatestVersion env i of Inl _ \<Rightarrow> True | Inr v \<Rightarrow> v = [])
        \<and> semver_Make sem (DefaultKubeEdgeVersion env) = Inr ver \<longrightarrow>
       (\<exists>events tools tool.
          AddInitBeta2ToolsList sem env toolList opts =
            (events @ [Println (''Failed to get the latest KubeEdge release version, will use default version:  ''
                          @ DefaultKubeEdgeVersion env)],
             Inr tools)
          \<and> count_list events GetLatestVersion_call = RetryTimes env
          \<and> tools ''helm'' = Some tool \<and> ToolVersion tool = ver))"
proof (intro conjI impI)
  obtain ev k l where f: "fetchLoop env (RetryTimes env) 0 [] = (ev, k, l)"
    by (cases "fetchLoop env (RetryTimes env) 0 []") auto
  from fetchLoop_bound[OF f] have "count_list ev GetLatestVersion_call \<le> RetryTimes env" by simp
  then show "count_list (fst (AddInitBeta2ToolsList sem env toolList opts)) GetLatestVersion_call
               \<le> RetryTimes env"
    by (auto simp: AddInitBeta2ToolsList_def f Let_def split: sum.splits)
next
  assume a: "(\<forall>i<RetryTimes env. case GetLatestVersion env i of Inl _ \<Rightarrow> True | Inr v \<Rightarrow> v = [])
        \<and> semver_Make sem (DefaultKubeEdgeVersion env) = Inr ver"
  then have "\<forall>j. 0 \<le> j \<and> j < 0 + RetryTimes env \<longrightarrow>
      (case GetLatestVersion env j of Inl _ \<Rightarrow> True | Inr v \<Rightarrow> v = [])" by simp
  from fetchLoop_all_fail[OF this, of "[]"] obtain ev where
    f: "fetchLoop env (RetryTimes env) 0 [] = (ev, [], [])"
    and c: "count_list ev GetLatestVersion_call = RetryTimes env" by auto
  show "\<exists>events tools tool.
          AddInitBeta2ToolsList sem env toolList opts =
            (events @ [Println (''Failed to get the latest KubeEdge release version, will use default version:  ''
                          @ DefaultKubeEdgeVersion env)],
             Inr tools)
          \<and> count_list events GetLatestVersion_call = RetryTimes env
          \<and> tools ''helm'' = Some tool \<and> ToolVersion tool = ver"
    using a c by (simp add: AddInitBeta2ToolsList_def f)
qed

text \<open>
  The theorem with three attempts that all time out.
\<close>

theorem version_fetch_falls_back_witness:
  "RetryTimes example_version_env = 3
   \<and> semver_Make plain_semver (DefaultKubeEdgeVersion example_version_env) = Inr (1, 12, 1)
   \<and> (\<exists>events tools tool.
          AddInitBeta2ToolsList plain_semver example_version_env Map.empty example_options =
            (events @ [Println ''Failed to get the latest KubeEdge release version, will use default version:  1.12.1''],
             Inr tools)
          \<and> count_list events GetLatestVersion_call = 3
          \<and> tools ''helm'' = Some tool \<and> ToolVersion tool = (1, 12, 1))"
proof -
  have h1: "\<forall>i<RetryTimes example_version_env.
       case GetLatestVersion example_version_env i of Inl _ \<Rightarrow> True | Inr v \<Rightarrow> v = []"
    by (simp add: example_version_env_def)
  have p: "plain_Make ''1.12.1'' = Inr (1, 12, 1)" by code_simp
  have h2: "semver_Make plain_semver (DefaultKubeEdgeVersion example_version_env) = Inr (1, 12, 1)"
    by (simp add: example_version_env_def plain_semver_def p)
  have d: "DefaultKubeEdgeVersion example_version_env = ''1.12.1''" "RetryTimes example_version_env = 3"
    by (simp_all add: example_version_env_def)
  from conjunct2[OF version_fetch_falls_back[of plain_semver example_version_env Map.empty example_options
         "(1, 12, 1)"]] h1 h2
  have "\<exists>events tools tool.
          AddInitBeta2ToolsList plain_semver example_version_env Map.empty example_options =
            (events @ [Println (''Failed to get the latest KubeEdge release version, will use default version:  ''
                          @ DefaultKubeEdgeVersion example_version_env)],
             Inr tools)
          \<and> count_list events GetLatestVersion_call = RetryTimes example_version_env
          \<and> tools ''helm'' = Some tool \<and> ToolVersion tool = (1, 12, 1)"
    by blast
  then have "\<exists>events tools tool.
          AddInitBeta2ToolsList plain_semver example_version_env Map.empty example_options =
            (events @ [Println ''Failed to get the latest KubeEdge release version, will use default version:  1.12.1''],
             Inr tools)
          \<and> count_list events GetLatestVersion_call = 3
          \<and> tools ''helm'' = Some tool \<and> ToolVersion tool = (1, 12, 1)"
    unfolding d by simp
  with d(2) h2 show ?thesis by blast
qed

section \<open>The edge configuration\<close>

lemma labelsLoop_panics:
  "\<exists>l\<in>set ls. CHR ''='' \<notin> set l \<Longrightarrow>
     labelsLoop m ls = Inl (Panic ''index out of range [1] with length 1'')"
proof (induction ls arbitrary: m)
  case Nil
  then show ?case by simp
next
  case (Cons l ls)
  show ?case
  proof (cases "CHR ''='' \<in> set l")
    case True
    with Cons.prems have "\<exists>l\<in>set ls. CHR ''='' \<notin> set l" by auto
    from Cons.IH[OF this] True show ?thesis by (simp add: Let_def Split_short)
  next
    case False
    then show ?thesis by (simp add: Let_def Split_short)
  qed
qed

lemma labelsLoop_returns:
  "\<forall>l\<in>set ls. CHR ''='' \<in> set l \<Longrightarrow> \<exists>m'. labelsLoop m ls = Inr m'"
  by (induction ls arbitrary: m) (auto simp: Let_def Split_short)

lemma setLabels_panics:
  "\<exists>l\<in>set (Labels ku). CHR ''='' \<notin> set l \<Longrightarrow>
     setLabels ku c = Inl (Panic ''index out of range [1] with length 1'')"
proof -
  assume bad: "\<exists>l\<in>set (Labels ku). CHR ''='' \<notin> set l"
  then have "labelsLoop Map.empty (Labels ku) = Inl (Panic ''index out of range [1] with length 1'')"
    by (rule labelsLoop_panics)
  moreover have "length (Labels ku) \<ge> 1" using bad by (cases "Labels ku") auto
  ultimately show ?thesis by (simp add: setLabels_def)
qed

lemma setLabels_returns:
  assumes "\<forall>l\<in>set (Labels ku). CHR ''='' \<in> set l"
  shows "\<exists>c'. setLabels ku c = Inr c' \<and> servers c' = servers c"
proof -
  from labelsLoop_returns[OF assms, of Map.empty] obtain m where "labelsLoop Map.empty (Labels ku) = Inr m"
    by blast
  then show ?thesis by (simp add: setLabels_def servers_def)
qed

lemma setLabels_servers: "setLabels ku c = Inr c' \<Longrightarrow> servers c' = servers c"
  by (auto simp: setLabels_def servers_def split: if_splits sum.splits)

lemma setCGroupDriver_cases:
  "setCGroupDriver ku c =
     (if CGroupDriver ku = [] \<or> CGroupDriver ku = CGroupDriverSystemd \<or> CGroupDriver ku = CGroupDriverCGroupFS
      then Inr (if CGroupDriver ku = [] then c else c\<lparr>Edged_CGroupDriver := CGroupDriver ku\<rparr>)
      else Inl (Err (''unsupported CGroupDriver: '' @ CGroupDriver ku)))"
  by (simp add: setCGroupDriver_def)

lemma setCGroupDriver_servers: "setCGroupDriver ku c = Inr c' \<Longrightarrow> servers c' = servers c"
  by (auto simp: setCGroupDriver_cases servers_def split: if_splits)

lemma servers_kept [simp]:
  "servers (setTaint ku c) = servers c"
  "servers (setRuntimeToken ku c) = servers c"
  "servers (setNode ku c) = servers c"
  by (simp_all add: servers_def setTaint_def setRuntimeToken_def setNode_def Let_def)

lemma Split_host: "strings_Split addr CHR '':'' ! 0 = host_of addr"
  by (simp add: Split_hd host_of_def)

lemma host_no_colon: "CHR '':'' \<notin> set (host_of addr)"
  unfolding host_of_def by (induction addr) auto

lemma servers_default:
  assumes "CertPort ku = []" "QuicPort ku = []" "TunnelPort ku = []"
  shows "servers (setTunnelServer ku (setQuicServer ku (setHTTPServer ku c)))
           = (''https://'' @ host_of (CloudCoreIP ku) @ '':10002'',
              host_of (CloudCoreIP ku) @ '':10001'', host_of (CloudCoreIP ku) @ '':10004'')"
  using assms
  by (simp add: servers_def setTunnelServer_def setQuicServer_def setHTTPServer_def Split_host)

lemma decimal_digit: "n < 10 \<Longrightarrow> decimal n = [digit_char n]"
  by (simp add: decimal.simps)

lemma decimal_step: "10 \<le> n \<Longrightarrow> decimal n = decimal (n div 10) @ [digit_char (n mod 10)]"
  by (subst decimal.simps) simp

lemma Itoa_10004: "strconv_Itoa 10004 = ''10004''"
  by (simp add: strconv_Itoa_def decimal_digit decimal_step digit_char_def)

lemma servers_default2:
  assumes "CertPort ku = []" "DefaultTunnelPort env = 10004"
  shows "servers (setTunnelServerDefault env ku c)
           = (''https://'' @ host_of (CloudCoreIP ku) @ '':10002'',
              EdgeHub_Quic_Server c, host_of (CloudCoreIP ku) @ '':10004'')"
  using assms host_no_colon[of "CloudCoreIP ku"]
  by (simp add: servers_def setTunnelServerDefault_def Let_def Split_host net_JoinHostPort_def Itoa_10004)




lemma edgeCoreConfig_servers:
  assumes "CertPort ku = []" "QuicPort ku = []" "TunnelPort ku = []"
    and "edgeCoreConfig env ku = Inr c"
  shows "servers c = (''https://'' @ host_of (CloudCoreIP ku) @ '':10002'',
              host_of (CloudCoreIP ku) @ '':10001'', host_of (CloudCoreIP ku) @ '':10004'')"
proof -
  from assms(4) obtain c1 where
    "setLabels ku (setTaint ku (setTunnelServer ku (setQuicServer ku (setHTTPServer ku
        (setRuntimeToken ku c1))))) = Inr c"
    by (auto simp: edgeCoreConfig_def split: sum.splits)
  from setLabels_servers[OF this] show ?thesis
    by (simp add: servers_default[OF assms(1-3)])
qed

lemma edgeCoreConfig2_servers:
  assumes "CertPort ku = []" "QuicPort ku = []" "TunnelPort ku = []"
    and "DefaultTunnelPort env = 10004"
    and "edgeCoreConfig2 env ku = Inr c"
  shows "servers c = (''https://'' @ host_of (CloudCoreIP ku) @ '':10002'',
              host_of (CloudCoreIP ku) @ '':10001'', host_of (CloudCoreIP ku) @ '':10004'')"
proof -
  let ?c0 = "setTaint ku (setTunnelServer ku (setQuicServer ku (setHTTPServer ku
                (setNode ku (NewDefaultEdgeCoreConfig env)))))"
  from assms(5) obtain c1 where
    c1: "setCGroupDriver ku ?c0 = Inr c1"
    and c: "setLabels ku (setTunnelServerDefault env ku (setRuntimeToken ku c1)) = Inr c"
    by (auto simp: edgeCoreConfig2_def split: sum.splits)
  have "servers c1 = servers ?c0" using c1 by (rule setCGroupDriver_servers)
  then have "servers (setRuntimeToken ku c1)
      = (''https://'' @ host_of (CloudCoreIP ku) @ '':10002'',
         host_of (CloudCoreIP ku) @ '':10001'', host_of (CloudCoreIP ku) @ '':10004'')"
    by (simp add: servers_default[OF assms(1-3)])
  then have q: "EdgeHub_Quic_Server (setRuntimeToken ku c1) = host_of (CloudCoreIP ku) @ '':10001''"
    unfolding servers_def by simp
  from setLabels_servers[OF c] show ?thesis
    by (simp add: servers_default2[OF assms(1,4)] q)
qed

lemma createEdgeConfigFiles_shape:
  "createEdgeConfigFiles env ku =
     (case MkdirAll env of
        Some _ \<Rightarrow> ([MkdirAll_call (KubeEdgeConfigDir env)],
                   Inl (Err (''not able to create '' @ KubeEdgeConfigDir env @ '' folder path'')))
      | None \<Rightarrow>
          (case edgeCoreConfig env ku of
             Inl e \<Rightarrow> ([MkdirAll_call (KubeEdgeConfigDir env)], Inl e)
           | Inr c \<Rightarrow>
               if ValidateEdgeCoreConfiguration env c \<noteq> [] then
                 ([MkdirAll_call (KubeEdgeConfigDir env), Validate_call c],
                  Inl (Err (SpliceErrors env (ToAggregate_Errors env (ValidateEdgeCoreConfiguration env c)))))
               else
                 ([MkdirAll_call (KubeEdgeConfigDir env), Validate_call c,
                   Write2File_call (KubeEdgeEdgeCoreNewYaml env) c],
                  (case Write2File env (KubeEdgeEdgeCoreNewYaml env) c of
                     Some msg \<Rightarrow> Inl (Err msg)
                   | None \<Rightarrow> Inr ()))))"
  by (simp add: createEdgeConfigFiles_def validateAndWrite_def Let_def split: option.splits sum.splits)

lemma createEdgeConfigFiles2_shape:
  "createEdgeConfigFiles2 env ku =
     (case MkdirAll env of
        Some _ \<Rightarrow> ([MkdirAll_call (KubeEdgeConfigDir env)],
                   Inl (Err (''not able to create '' @ KubeEdgeConfigDir env @ '' folder path'')))
      | None \<Rightarrow>
          (case edgeCoreConfig2 env ku of
             Inl e \<Rightarrow> ([MkdirAll_call (KubeEdgeConfigDir env)], Inl e)
           | Inr c \<Rightarrow>
               if ValidateEdgeCoreConfiguration env c \<noteq> [] then
                 ([MkdirAll_call (KubeEdgeConfigDir env), Validate_call c],
                  Inl (Err (SpliceErrors env (ToAggregate_Errors env (ValidateEdgeCoreConfiguration env c)))))
               else
                 ([MkdirAll_call (KubeEdgeConfigDir env), Validate_call c,
                   Write2File_call (KubeEdgeEdgeCoreNewYaml env) c],
                  (case Write2File env (KubeEdgeEdgeCoreNewYaml env) c of
                     Some msg \<Rightarrow> Inl (Err msg)
                   | None \<Rightarrow> Inr ()))))"
  by (simp add: createEdgeConfigFiles2_def validateAndWrite_def Let_def split: option.splits sum.splits)

lemma reaches_assembled:
  "Validate_call c \<in> set (fst (createEdgeConfigFiles env ku))
     \<or> (\<exists>p. Write2File_call p c \<in> set (fst (createEdgeConfigFiles env ku)))
   \<Longrightarrow> edgeCoreConfig env ku = Inr c"
  by (auto simp: createEdgeConfigFiles_shape split: option.splits sum.splits if_splits)

lemma reaches_assembled2:
  "Validate_call c \<in> set (fst (createEdgeConfigFiles2 env ku))
     \<or> (\<exists>p. Write2File_call p c \<in> set (fst (createEdgeConfigFiles2 env ku)))
   \<Longrightarrow> edgeCoreConfig2 env ku = Inr c"
  by (auto simp: createEdgeConfigFiles2_shape split: option.splits sum.splits if_splits)

text \<open>
  C3. With no \<open>CertPort\<close>, \<open>QuicPort\<close> and \<open>TunnelPort\<close>, every configuration that
  \<open>createEdgeConfigFiles\<close> validates or writes has the HTTP server \<open>https://host:10002\<close>,
  the QUIC server \<open>host:10001\<close> and the tunnel server \<open>host:10004\<close>, the host being what
  stands before the first colon of the cloud-core address; so has the one of the second
  listing, where the tunnel port is \<open>constants.DefaultTunnelPort\<close>, when that is 10004. For
  the address \<open>1.2.3.4:8080\<close> the host is \<open>1.2.3.4\<close>.
\<close>

theorem default_endpoints:
  assumes "CertPort ku = []" and "QuicPort ku = []" and "TunnelPort ku = []"
  shows "(\<forall>c. Validate_call c \<in> set (fst (createEdgeConfigFiles env ku))
               \<or> (\<exists>p. Write2File_call p c \<in> set (fst (createEdgeConfigFiles env ku))) \<longrightarrow>
             servers c = (''https://'' @ host_of (CloudCoreIP ku) @ '':10002'',
                          host_of (CloudCoreIP ku) @ '':10001'',
                          host_of (CloudCoreIP ku) @ '':10004''))
       \<and> (DefaultTunnelPort env = 10004 \<longrightarrow>
            (\<forall>c. Validate_call c \<in> set (fst (createEdgeConfigFiles2 env ku))
               \<or> (\<exists>p. Write2File_call p c \<in> set (fst (createEdgeConfigFiles2 env ku))) \<longrightarrow>
             servers c = (''https://'' @ host_of (CloudCoreIP ku) @ '':10002'',
                          host_of (CloudCoreIP ku) @ '':10001'',
                          host_of (CloudCoreIP ku) @ '':10004'')))
       \<and> (CloudCoreIP ku = ''1.2.3.4:8080'' \<longrightarrow> host_of (CloudCoreIP ku) = ''1.2.3.4'')"
proof (intro conjI allI impI)
  fix c
  assume "Validate_call c \<in> set (fst (createEdgeConfigFiles env ku))
               \<or> (\<exists>p. Write2File_call p c \<in> set (fst (createEdgeConfigFiles env ku)))"
  then have "edgeCoreConfig env ku = Inr c" by (rule reaches_assembled)
  with assms show "servers c = (''https://'' @ host_of (CloudCoreIP ku) @ '':10002'',
                          host_of (CloudCoreIP ku) @ '':10001'',
                          host_of (CloudCoreIP ku) @ '':10004'')"
    by (rule edgeCoreConfig_servers)
next
  fix c
  assume port: "DefaultTunnelPort env = 10004"
  assume "Validate_call c \<in> set (fst (createEdgeConfigFiles2 env ku))
               \<or> (\<exists>p. Write2File_call p c \<in> set (fst (createEdgeConfigFiles2 env ku)))"
  then have "edgeCoreConfig2 env ku = Inr c" by (rule reaches_assembled2)
  with assms port show "servers c = (''https://'' @ host_of (CloudCoreIP ku) @ '':10002'',
                          host_of (CloudCoreIP ku) @ '':10001'',
                          host_of (CloudCoreIP ku) @ '':10004'')"
    by (rule edgeCoreConfig2_servers)
next
  assume "CloudCoreIP ku = ''1.2.3.4:8080''"
  then show "host_of (CloudCoreIP ku) = ''1.2.3.4''"
    by (simp add: host_of_def)
qed

lemma example_edgeCoreConfig:
  "edgeCoreConfig example_edge_env (blank_edge_tool\<lparr>CloudCoreIP := ''1.2.3.4:8080''\<rparr>)
     = Inr (blank_config\<lparr>EdgeHub_WebSocket_Server := ''1.2.3.4:8080'',
              EdgeHub_HTTPServer := ''https://1.2.3.4:10002'',
              EdgeHub_Quic_Server := ''1.2.3.4:10001'',
              EdgeStream_TunnelServer := ''1.2.3.4:10004''\<rparr>)"
  by (simp add: edgeCoreConfig_def setCGroupDriver_def setNode_def setRuntimeToken_def
        setHTTPServer_def setQuicServer_def setTunnelServer_def setTaint_def setLabels_def
        example_edge_env_def blank_edge_tool_def blank_config_def Let_def)

lemma example_edgeCoreConfig2:
  "edgeCoreConfig2 example_edge_env (blank_edge_tool\<lparr>CloudCoreIP := ''1.2.3.4:8080''\<rparr>)
     = Inr (blank_config\<lparr>EdgeHub_WebSocket_Server := ''1.2.3.4:8080'',
              EdgeHub_HTTPServer := ''https://1.2.3.4:10002'',
              EdgeHub_Quic_Server := ''1.2.3.4:10001'',
              EdgeStream_TunnelServer := ''1.2.3.4:10004''\<rparr>)"
  by (simp add: edgeCoreConfig2_def setCGroupDriver_def setNode_def setRuntimeToken_def
        setHTTPServer_def setQuicServer_def setTunnelServer_def setTaint_def setLabels_def
        setTunnelServerDefault_def net_JoinHostPort_def Itoa_10004
        example_edge_env_def blank_edge_tool_def blank_config_def Let_def)

lemma example_run:
  "createEdgeConfigFiles example_edge_env (blank_edge_tool\<lparr>CloudCoreIP := ''1.2.3.4:8080''\<rparr>)
     = ([MkdirAll_call ''/etc/kubeedge/config'',
         Validate_call (blank_config\<lparr>EdgeHub_WebSocket_Server := ''1.2.3.4:8080'',
              EdgeHub_HTTPServer := ''https://1.2.3.4:10002'',
              EdgeHub_Quic_Server := ''1.2.3.4:10001'',
              EdgeStream_TunnelServer := ''1.2.3.4:10004''\<rparr>),
         Write2File_call ''/etc/kubeedge/config/edgecore.yaml''
           (blank_config\<lparr>EdgeHub_WebSocket_Server := ''1.2.3.4:8080'',
              EdgeHub_HTTPServer := ''https://1.2.3.4:10002'',
              EdgeHub_Quic_Server := ''1.2.3.4:10001'',
              EdgeStream_TunnelServer := ''1.2.3.4:10004''\<rparr>)], Inr ())"
  unfolding createEdgeConfigFiles_shape example_edgeCoreConfig
  by (simp add: example_edge_env_def)

lemma example_run2:
  "createEdgeConfigFiles2 example_edge_env (blank_edge_tool\<lparr>CloudCoreIP := ''1.2.3.4:8080''\<rparr>)
     = ([MkdirAll_call ''/etc/kubeedge/config'',
         Validate_call (blank_config\<lparr>EdgeHub_WebSocket_Server := ''1.2.3.4:8080'',
              EdgeHub_HTTPServer := ''https://1.2.3.4:10002'',
              EdgeHub_Quic_Server := ''1.2.3.4:10001'',
              EdgeStream_TunnelServer := ''1.2.3.4:10004''\<rparr>),
         Write2File_call ''/etc/kubeedge/config/edgecore.yaml''
           (blank_config\<lparr>EdgeHub_WebSocket_Server := ''1.2.3.4:8080'',
              EdgeHub_HTTPServer := ''https://1.2.3.4:10002'',
              EdgeHub_Quic_Server := ''1.2.3.4:10001'',
              EdgeStream_TunnelServer := ''1.2.3.4:10004''\<rparr>)], Inr ())"
  unfolding createEdgeConfigFiles2_shape example_edgeCoreConfig2
  by (simp add: example_edge_env_def)

text \<open>
  The theorem at the address \<open>1.2.3.4:8080\<close> with nothing else given: both listings write
  a configuration, and its endpoints are the three of the specification.
\<close>

theorem default_endpoints_witness:
  "(\<exists>c. Write2File_call ''/etc/kubeedge/config/edgecore.yaml'' c
            \<in> set (fst (createEdgeConfigFiles example_edge_env (blank_edge_tool\<lparr>CloudCoreIP := ''1.2.3.4:8080''\<rparr>)))
        \<and> servers c = (''https://1.2.3.4:10002'', ''1.2.3.4:10001'', ''1.2.3.4:10004''))
   \<and> (\<exists>c. Write2File_call ''/etc/kubeedge/config/edgecore.yaml'' c
            \<in> set (fst (createEdgeConfigFiles2 example_edge_env (blank_edge_tool\<lparr>CloudCoreIP := ''1.2.3.4:8080''\<rparr>)))
        \<and> servers c = (''https://1.2.3.4:10002'', ''1.2.3.4:10001'', ''1.2.3.4:10004''))"
proof -
  let ?ku = "blank_edge_tool\<lparr>CloudCoreIP := ''1.2.3.4:8080''\<rparr>"
  let ?c = "blank_config\<lparr>EdgeHub_WebSocket_Server := ''1.2.3.4:8080'',
              EdgeHub_HTTPServer := ''https://1.2.3.4:10002'',
              EdgeHub_Quic_Server := ''1.2.3.4:10001'',
              EdgeStream_TunnelServer := ''1.2.3.4:10004''\<rparr>"
  have ports: "CertPort ?ku = []" "QuicPort ?ku = []" "TunnelPort ?ku = []"
    by (simp_all add: blank_edge_tool_def)
  have ip: "CloudCoreIP ?ku = ''1.2.3.4:8080''" by simp
  have tp: "DefaultTunnelPort example_edge_env = 10004" by (simp add: example_edge_env_def)
  note T = default_endpoints[OF ports, of example_edge_env]
  have host: "host_of (CloudCoreIP ?ku) = ''1.2.3.4''"
    using conjunct2[OF conjunct2[OF T]] ip by (rule mp)
  have w1: "Write2File_call ''/etc/kubeedge/config/edgecore.yaml'' ?c
              \<in> set (fst (createEdgeConfigFiles example_edge_env ?ku))"
    unfolding example_run by simp
  have w2: "Write2File_call ''/etc/kubeedge/config/edgecore.yaml'' ?c
              \<in> set (fst (createEdgeConfigFiles2 example_edge_env ?ku))"
    unfolding example_run2 by simp
  have "servers ?c = (''https://'' @ host_of (CloudCoreIP ?ku) @ '':10002'',
                      host_of (CloudCoreIP ?ku) @ '':10001'', host_of (CloudCoreIP ?ku) @ '':10004'')"
    using conjunct1[OF T] w1 by blast
  then have s1: "servers ?c = (''https://1.2.3.4:10002'', ''1.2.3.4:10001'', ''1.2.3.4:10004'')"
    unfolding host by simp
  have "servers ?c = (''https://'' @ host_of (CloudCoreIP ?ku) @ '':10002'',
                      host_of (CloudCoreIP ?ku) @ '':10001'', host_of (CloudCoreIP ?ku) @ '':10004'')"
    using conjunct1[OF conjunct2[OF T]] tp w2 by blast
  then have s2: "servers ?c = (''https://1.2.3.4:10002'', ''1.2.3.4:10001'', ''1.2.3.4:10004'')"
    unfolding host by simp
  from w1 s1 w2 s2 show ?thesis by blast
qed

lemma gate_of_shape:
  assumes "run =
     (case mk of
        Some (_::string) \<Rightarrow> ([MkdirAll_call dir], Inl e0)
      | None \<Rightarrow>
          (case asm of
             Inl e \<Rightarrow> ([MkdirAll_call dir], Inl e)
           | Inr c \<Rightarrow>
               if ValidateEdgeCoreConfiguration env c \<noteq> [] then
                 ([MkdirAll_call dir, Validate_call c],
                  Inl (Err (SpliceErrors env (ToAggregate_Errors env (ValidateEdgeCoreConfiguration env c)))))
               else ([MkdirAll_call dir, Validate_call c, Write2File_call path c], res c)))"
  shows "validation_gate env run"
proof (cases mk)
  case (Some a)
  with assms show ?thesis by (simp add: validation_gate_def)
next
  case None
  show ?thesis
  proof (cases asm)
    case (Inl e)
    with assms None show ?thesis by (simp add: validation_gate_def)
  next
    case (Inr c)
    show ?thesis
    proof (cases "ValidateEdgeCoreConfiguration env c = []")
      case True
      then have run: "run = ([MkdirAll_call dir, Validate_call c, Write2File_call path c], res c)"
        using assms None Inr by simp
      have "[MkdirAll_call dir, Validate_call c, Write2File_call path c]
              = [MkdirAll_call dir] @ [Validate_call c, Write2File_call path c]" by simp
      then show ?thesis using True unfolding validation_gate_def run by auto
    next
      case False
      with assms None Inr show ?thesis by (simp add: validation_gate_def)
    qed
  qed
qed

text \<open>
  C6. In both listings a configuration is written only right after it was validated
  without errors; and if the validator reports errors on the assembled configuration, the
  result is the single error spliced from all its messages and nothing is written.
\<close>

theorem validation_before_write:
  "validation_gate env (createEdgeConfigFiles env ku)
   \<and> validation_gate env (createEdgeConfigFiles2 env ku)"
proof
  show "validation_gate env (createEdgeConfigFiles env ku)"
    by (rule gate_of_shape) (rule createEdgeConfigFiles_shape)
  show "validation_gate env (createEdgeConfigFiles2 env ku)"
    by (rule gate_of_shape) (rule createEdgeConfigFiles2_shape)
qed

lemma rejecting_run:
  "createEdgeConfigFiles rejecting_edge_env (blank_edge_tool\<lparr>CloudCoreIP := ''1.2.3.4:8080''\<rparr>)
     = ([MkdirAll_call ''/etc/kubeedge/config'',
         Validate_call (blank_config\<lparr>EdgeHub_WebSocket_Server := ''1.2.3.4:8080'',
              EdgeHub_HTTPServer := ''https://1.2.3.4:10002'',
              EdgeHub_Quic_Server := ''1.2.3.4:10001'',
              EdgeStream_TunnelServer := ''1.2.3.4:10004''\<rparr>)],
        Inl (Err ''bad node ipbad runtime''))"
proof -
  have "edgeCoreConfig rejecting_edge_env (blank_edge_tool\<lparr>CloudCoreIP := ''1.2.3.4:8080''\<rparr>)
          = edgeCoreConfig example_edge_env (blank_edge_tool\<lparr>CloudCoreIP := ''1.2.3.4:8080''\<rparr>)"
    by (simp add: edgeCoreConfig_def rejecting_edge_env_def)
  then show ?thesis
    unfolding createEdgeConfigFiles_shape example_edgeCoreConfig
    by (simp add: rejecting_edge_env_def example_edge_env_def)
qed

text \<open>
  The theorem with a validator that reports two errors: the run stops after the
  validation with the two messages in one error, and no write is among its calls.
\<close>

theorem validation_before_write_witness:
  "snd (createEdgeConfigFiles rejecting_edge_env (blank_edge_tool\<lparr>CloudCoreIP := ''1.2.3.4:8080''\<rparr>))
      = Inl (Err ''bad node ipbad runtime'')
   \<and> (\<forall>p c. Write2File_call p c
         \<notin> set (fst (createEdgeConfigFiles rejecting_edge_env (blank_edge_tool\<lparr>CloudCoreIP := ''1.2.3.4:8080''\<rparr>))))"
proof -
  let ?ku = "blank_edge_tool\<lparr>CloudCoreIP := ''1.2.3.4:8080''\<rparr>"
  let ?c = "blank_config\<lparr>EdgeHub_WebSocket_Server := ''1.2.3.4:8080'',
              EdgeHub_HTTPServer := ''https://1.2.3.4:10002'',
              EdgeHub_Quic_Server := ''1.2.3.4:10001'',
              EdgeStream_TunnelServer := ''1.2.3.4:10004''\<rparr>"
  have v: "Validate_call ?c \<in> set (fst (createEdgeConfigFiles rejecting_edge_env ?ku))"
    unfolding rejecting_run by simp
  have e: "ValidateEdgeCoreConfiguration rejecting_edge_env ?c = [''bad node ip'', ''bad runtime'']"
    by (simp add: rejecting_edge_env_def)
  have m: "SpliceErrors rejecting_edge_env (ToAggregate_Errors rejecting_edge_env [''bad node ip'', ''bad runtime''])
             = ''bad node ipbad runtime''"
    by (simp add: rejecting_edge_env_def example_edge_env_def)
  have ne: "ValidateEdgeCoreConfiguration rejecting_edge_env ?c \<noteq> []"
    unfolding e by simp
  have "validation_gate rejecting_edge_env (createEdgeConfigFiles rejecting_edge_env ?ku)"
    using validation_before_write[of rejecting_edge_env ?ku] by (rule conjunct1)
  then have g: "\<forall>c. Validate_call c \<in> set (fst (createEdgeConfigFiles rejecting_edge_env ?ku))
          \<and> ValidateEdgeCoreConfiguration rejecting_edge_env c \<noteq> [] \<longrightarrow>
        snd (createEdgeConfigFiles rejecting_edge_env ?ku)
          = Inl (Err (SpliceErrors rejecting_edge_env (ToAggregate_Errors rejecting_edge_env
                (ValidateEdgeCoreConfiguration rejecting_edge_env c))))
        \<and> (\<forall>p c'. Write2File_call p c' \<notin> set (fst (createEdgeConfigFiles rejecting_edge_env ?ku)))"
    unfolding validation_gate_def by (rule conjunct2)
  have "snd (createEdgeConfigFiles rejecting_edge_env ?ku)
        = Inl (Err (SpliceErrors rejecting_edge_env (ToAggregate_Errors rejecting_edge_env
              (ValidateEdgeCoreConfiguration rejecting_edge_env ?c))))
      \<and> (\<forall>p c'. Write2File_call p c' \<notin> set (fst (createEdgeConfigFiles rejecting_edge_env ?ku)))"
    using g[rule_format, OF conjI[OF v ne]] .
  then show ?thesis unfolding e m .
qed

text \<open>
  C10. Once the directory exists and the cgroup driver is accepted, a label without \<open>=\<close>
  makes both listings panic on the second part of its split, before anything is validated
  or written; and when every label has a \<open>=\<close>, neither listing panics. So the function
  returns on every input only under the precondition that every label contains \<open>=\<close>.
\<close>

theorem labels_need_equals:
  "(MkdirAll env = None
      \<and> (CGroupDriver ku = [] \<or> CGroupDriver ku = CGroupDriverSystemd \<or> CGroupDriver ku = CGroupDriverCGroupFS)
      \<and> (\<exists>l\<in>set (Labels ku). CHR ''='' \<notin> set l) \<longrightarrow>
      createEdgeConfigFiles env ku
        = ([MkdirAll_call (KubeEdgeConfigDir env)], Inl (Panic ''index out of range [1] with length 1''))
      \<and> createEdgeConfigFiles2 env ku
        = ([MkdirAll_call (KubeEdgeConfigDir env)], Inl (Panic ''index out of range [1] with length 1'')))
   \<and> ((\<forall>l\<in>set (Labels ku). CHR ''='' \<in> set l) \<longrightarrow>
      (\<forall>msg. snd (createEdgeConfigFiles env ku) \<noteq> Inl (Panic msg))
      \<and> (\<forall>msg. snd (createEdgeConfigFiles2 env ku) \<noteq> Inl (Panic msg)))"
proof (intro conjI impI allI)
  assume a: "MkdirAll env = None
      \<and> (CGroupDriver ku = [] \<or> CGroupDriver ku = CGroupDriverSystemd \<or> CGroupDriver ku = CGroupDriverCGroupFS)
      \<and> (\<exists>l\<in>set (Labels ku). CHR ''='' \<notin> set l)"
  then have bad: "\<exists>l\<in>set (Labels ku). CHR ''='' \<notin> set l" by blast
  have "edgeCoreConfig env ku = Inl (Panic ''index out of range [1] with length 1'')"
    using a by (simp add: edgeCoreConfig_def setCGroupDriver_cases setLabels_panics[OF bad])
  then show "createEdgeConfigFiles env ku
        = ([MkdirAll_call (KubeEdgeConfigDir env)], Inl (Panic ''index out of range [1] with length 1''))"
    using a by (simp add: createEdgeConfigFiles_shape)
  have "edgeCoreConfig2 env ku = Inl (Panic ''index out of range [1] with length 1'')"
    using a by (simp add: edgeCoreConfig2_def setCGroupDriver_cases setLabels_panics[OF bad])
  then show "createEdgeConfigFiles2 env ku
        = ([MkdirAll_call (KubeEdgeConfigDir env)], Inl (Panic ''index out of range [1] with length 1''))"
    using a by (simp add: createEdgeConfigFiles2_shape)
next
  fix msg
  assume ok: "\<forall>l\<in>set (Labels ku). CHR ''='' \<in> set l"
  have l: "setLabels ku c \<noteq> Inl (Panic msg)" for c
    using setLabels_returns[OF ok, of c] by auto
  have "edgeCoreConfig env ku \<noteq> Inl (Panic msg)"
    using l by (simp add: edgeCoreConfig_def setCGroupDriver_cases)
  then show "snd (createEdgeConfigFiles env ku) \<noteq> Inl (Panic msg)"
    by (auto simp: createEdgeConfigFiles_shape split: option.splits sum.splits)
next
  fix msg
  assume ok: "\<forall>l\<in>set (Labels ku). CHR ''='' \<in> set l"
  have l: "setLabels ku c \<noteq> Inl (Panic msg)" for c
    using setLabels_returns[OF ok, of c] by auto
  have "edgeCoreConfig2 env ku \<noteq> Inl (Panic msg)"
    using l by (simp add: edgeCoreConfig2_def setCGroupDriver_cases)
  then show "snd (createEdgeConfigFiles2 env ku) \<noteq> Inl (Panic msg)"
    by (auto simp: createEdgeConfigFiles2_shape split: option.splits sum.splits)
qed

text \<open>The theorem with the labels \<open>zone=a\<close> and \<open>gpu\<close>, and with the label \<open>zone=a\<close> alone.\<close>

theorem labels_need_equals_witness:
  "createEdgeConfigFiles example_edge_env (blank_edge_tool\<lparr>Labels := [''zone=a'', ''gpu'']\<rparr>)
      = ([MkdirAll_call ''/etc/kubeedge/config''], Inl (Panic ''index out of range [1] with length 1''))
   \<and> createEdgeConfigFiles2 example_edge_env (blank_edge_tool\<lparr>Labels := [''zone=a'', ''gpu'']\<rparr>)
      = ([MkdirAll_call ''/etc/kubeedge/config''], Inl (Panic ''index out of range [1] with length 1''))
   \<and> snd (createEdgeConfigFiles example_edge_env (blank_edge_tool\<lparr>Labels := [''zone=a'']\<rparr>))
      \<noteq> Inl (Panic ''index out of range [1] with length 1'')"
proof -
  let ?bad = "blank_edge_tool\<lparr>Labels := [''zone=a'', ''gpu'']\<rparr>"
  let ?good = "blank_edge_tool\<lparr>Labels := [''zone=a'']\<rparr>"
  have h: "MkdirAll example_edge_env = None
      \<and> (CGroupDriver ?bad = [] \<or> CGroupDriver ?bad = CGroupDriverSystemd \<or> CGroupDriver ?bad = CGroupDriverCGroupFS)
      \<and> (\<exists>l\<in>set (Labels ?bad). CHR ''='' \<notin> set l)"
    by (simp add: example_edge_env_def blank_edge_tool_def)
  have d: "KubeEdgeConfigDir example_edge_env = ''/etc/kubeedge/config''"
    by (simp add: example_edge_env_def)
  have g: "\<forall>l\<in>set (Labels ?good). CHR ''='' \<in> set l" by simp
  have 1: "createEdgeConfigFiles example_edge_env ?bad
        = ([MkdirAll_call ''/etc/kubeedge/config''], Inl (Panic ''index out of range [1] with length 1''))
      \<and> createEdgeConfigFiles2 example_edge_env ?bad
        = ([MkdirAll_call ''/etc/kubeedge/config''], Inl (Panic ''index out of range [1] with length 1''))"
    using conjunct1[OF labels_need_equals[of example_edge_env ?bad]] h unfolding d by (rule mp)
  have 2: "snd (createEdgeConfigFiles example_edge_env ?good)
      \<noteq> Inl (Panic ''index out of range [1] with length 1'')"
    using conjunct2[OF labels_need_equals[of example_edge_env ?good]] g by blast
  from 1 2 show ?thesis by blast
qed

end
